theory Spec2Isabelle
  imports Main "HOL-Library.Sublist"
begin

section \<open>Values, errors and effects\<close>

text \<open>
  The result of \<^verbatim>\<open>json.loads\<close>: the manifest \<^verbatim>\<open>hacs.json\<close> is parsed into a value of
  this type, and \<^verbatim>\<open>RepositoryData.update_data\<close> and \<^verbatim>\<open>HacsManifest.from_dict\<close> walk it.
\<close>

datatype json =
    JNull
  | JBool bool
  | JNum int
  | JStr string
  | JArr "json list"
  | JObj "(string \<times> json) list"

text \<open>
  Every exception the modelled methods raise or catch. \<open>SystemExit\<close> is what the built-in
  \<^verbatim>\<open>exit(msg)\<close> raises; \<open>HacsNotModifiedException\<close> is what the fetch of the repository
  raises when the remote reports no change; \<open>OtherException\<close> stands for whatever a
  collaborator outside the sources (network, file system, the host application) raises.
\<close>

datatype error =
    HacsException string
  | HacsRepositoryExistException
  | HacsNotModifiedException
  | SystemExit string
  | KeyError string
  | IndexError
  | AttributeError
  | TypeError
  | UnboundLocalError
  | OtherException string

text \<open>
  What a method does to the world outside the repository object, in the order it does it:
  calls of the error logger, events fired on the host's bus, the operations of the backup
  objects (\<^verbatim>\<open>custom_components/hacs/backup.py\<close> is not part of the sources, so a backup
  operation is recorded by the local path of the backup object it is called on), downloads,
  service calls and the removal of the per-repository store file.
\<close>

datatype effect =
    LogError string
  | BusFire string string string
  | BackupCreate string
  | BackupRestore string
  | BackupCleanup string
  | NetDaemonCreate
  | NetDaemonRestore
  | NetDaemonCleanup
  | DownloadContent
  | DownloadZip string
  | ExtractZip string string
  | CleanupTemp string
  | OsRemove string
  | Rmtree string
  | ServiceCall string string
  | ReloadCustomComponents
  | RemoveStore string
  | RunCheck string

section \<open>The data model of \<^verbatim>\<open>repositories/base.py\<close>\<close>

text \<open>
  \<^verbatim>\<open>RepositoryData\<close>, with the attributes the modelled methods read or write, at the types
  the class annotates (\<^verbatim>\<open>str = None\<close> is a \<open>string option\<close>). The attribute \<^verbatim>\<open>id\<close> is
  \<open>id_repository\<close> here, since \<open>id\<close> is the identity function of HOL.
\<close>

record RepositoryData =
  category :: string
  config_flow :: bool
  default_branch :: "string option"
  domain :: string
  etag_repository :: "string option"
  filename :: string
  full_name :: string
  homeassistant :: "string option"
  id_repository :: string
  installed :: bool
  installed_commit :: "string option"
  installed_version :: "string option"
  last_commit :: "string option"
  last_version :: "string option"
  last_updated :: "json"
  new :: bool
  persistent_directory :: "string option"
  pushed_at :: string
  releases :: bool
  selected_tag :: "string option"
  zip_release :: bool

text \<open>
  \<^verbatim>\<open>HacsManifest.from_dict\<close> sets one attribute per key of the manifest, whatever the key,
  so the manifest object is its attribute dictionary; an attribute that was never set reads
  as the class default.
\<close>

type_synonym HacsManifest = "(string \<times> json) list"

text \<open>One release of \<^verbatim>\<open>self.releases.objects\<close>: its tag and its assets (name, download url).\<close>

record release_object =
  tag_name :: string
  assets :: "(string \<times> string) list"

text \<open>
  \<^verbatim>\<open>HacsRepository\<close>. \<open>repository_object\<close> is the remote repository object, reduced to its
  \<^verbatim>\<open>attributes\<close> dictionary (\<open>None\<close> while no object is attached); \<open>tree\<close> holds the
  \<^verbatim>\<open>filename\<close> of every tree entry; \<open>validate_errors\<close> is \<^verbatim>\<open>self.validate.errors\<close>.
\<close>

record HacsRepository =
  data :: RepositoryData
  content_path_local :: "string option"
  content_single :: bool
  repository_object :: "(string \<times> json) list option"
  repository_manifest :: HacsManifest
  validate_errors :: "string list"
  releases_objects :: "release_object list"
  pending_restart :: bool
  tree :: "string list"
  ref :: "string option"
  additional_info :: "string option"

text \<open>
  The state a method runs in: the repository object, the paths that exist on the local file
  system, the effects so far, and the module-level registry \<^verbatim>\<open>RULES\<close> of
  \<^verbatim>\<open>validate/__init__.py\<close> (category to check names). A method returns the state it leaves behind together with
  its return value or the exception it raised, because a Python exception does not undo the
  assignments made before it.
\<close>

record state =
  repository :: HacsRepository
  fs :: "string list"
  trace :: "effect list"
  rules :: "(string \<times> string list) list"

type_synonym 'a result = "(error + 'a) \<times> state"

text \<open>What the methods read of the \<^verbatim>\<open>hacs\<close> object.\<close>

record hacs =
  ha_version :: string
  system_action :: bool
  system_running :: bool
  action :: bool
  renamed_repositories :: "(string \<times> string) list"
  config_path :: string
  theme_path :: string

definition emit :: "effect \<Rightarrow> state \<Rightarrow> state" where
  "emit e s = s\<lparr>trace := trace s @ [e]\<rparr>"

definition set_data :: "(RepositoryData \<Rightarrow> RepositoryData) \<Rightarrow> state \<Rightarrow> state" where
  "set_data f s = s\<lparr>repository := (repository s)\<lparr>data := f (data (repository s))\<rparr>\<rparr>"

definition set_repository :: "(HacsRepository \<Rightarrow> HacsRepository) \<Rightarrow> state \<Rightarrow> state" where
  "set_repository f s = s\<lparr>repository := f (repository s)\<rparr>"

section \<open>Strings\<close>

text \<open>Python's \<^verbatim>\<open>s.split(c)\<close> for a one-character separator: never empty, empty pieces kept.\<close>

fun split_on :: "char \<Rightarrow> string \<Rightarrow> string list" where
  "split_on c [] = [[]]"
| "split_on c (x # xs) =
     (if x = c then [] # split_on c xs
      else (case split_on c xs of w # ws \<Rightarrow> (x # w) # ws | [] \<Rightarrow> [[x]]))"

definition digit_of :: "nat \<Rightarrow> char" where
  "digit_of n = ''0123456789'' ! (n mod 10)"

text \<open>Python's \<^verbatim>\<open>str(n)\<close> for a natural number, as the f-strings of the checks use it.\<close>

function str_of_nat :: "nat \<Rightarrow> string" where
  "str_of_nat n = (if n < 10 then [digit_of n] else str_of_nat (n div 10) @ [digit_of (n mod 10)])"
  by pat_completeness auto
termination
  by (relation "measure (\<lambda>n. n)") auto

declare str_of_nat.simps [simp del]

section \<open>Version comparison\<close>

text \<open>
  Modelled from the spec: \<^verbatim>\<open>custom_components/hacs/utils/version.py\<close>, which holds
  \<^verbatim>\<open>version_left_higher_then_right\<close> and \<^verbatim>\<open>version_left_higher_or_equal_then_right\<close>, is not
  part of the sources. The spec gives the rules: dotted numeric versions with an optional
  pre-release suffix; the higher numeric component wins; missing components default to 0; a
  pre-release suffix is lower than the same numeric version without one; a comparison that
  cannot be made is false.
\<close>

definition digit_val :: "char \<Rightarrow> nat option" where
  "digit_val c = map_of (zip ''0123456789'' [0, 1, 2, 3, 4, 5, 6, 7, 8, 9]) c"

fun digits_val :: "nat \<Rightarrow> string \<Rightarrow> nat option" where
  "digits_val acc [] = Some acc"
| "digits_val acc (c # cs) =
     (case digit_val c of None \<Rightarrow> None | Some d \<Rightarrow> digits_val (10 * acc + d) cs)"

definition parse_component :: "string \<Rightarrow> nat option" where
  "parse_component s = (if s = [] then None else digits_val 0 s)"

fun parse_components :: "string list \<Rightarrow> nat list option" where
  "parse_components [] = Some []"
| "parse_components (s # ss) =
     (case parse_component s of
        None \<Rightarrow> None
      | Some n \<Rightarrow> (case parse_components ss of None \<Rightarrow> None | Some ns \<Rightarrow> Some (n # ns)))"

text \<open>
  A version is its numeric components and whether a pre-release suffix follows them: the
  suffix starts at the first \<^verbatim>\<open>-\<close>.
\<close>

definition parse_version :: "string \<Rightarrow> (nat list \<times> bool) option" where
  "parse_version s =
     (let numeric = takeWhile (\<lambda>c. c \<noteq> CHR ''-'') s;
          suffix = dropWhile (\<lambda>c. c \<noteq> CHR ''-'') s
      in case parse_components (split_on CHR ''.'' numeric) of
           None \<Rightarrow> None
         | Some ns \<Rightarrow> Some (ns, suffix \<noteq> []))"

text \<open>A string of numeric components separated by dots, with no suffix.\<close>

definition dotted_numeric :: "string \<Rightarrow> bool" where
  "dotted_numeric s = (parse_components (split_on CHR ''.'' s) \<noteq> None)"

fun components_higher :: "nat list \<Rightarrow> nat list \<Rightarrow> bool" where
  "components_higher [] ys = False"
| "components_higher (x # xs) [] = (0 < x \<or> components_higher xs [])"
| "components_higher (x # xs) (y # ys) = (y < x \<or> (x = y \<and> components_higher xs ys))"

fun components_equal :: "nat list \<Rightarrow> nat list \<Rightarrow> bool" where
  "components_equal [] [] = True"
| "components_equal [] (y # ys) = (y = 0 \<and> components_equal [] ys)"
| "components_equal (x # xs) [] = (x = 0 \<and> components_equal xs [])"
| "components_equal (x # xs) (y # ys) = (x = y \<and> components_equal xs ys)"

definition version_left_higher_then_right :: "string \<Rightarrow> string \<Rightarrow> bool" where
  "version_left_higher_then_right left right =
     (case (parse_version left, parse_version right) of
        (Some (l, lpre), Some (r, rpre)) \<Rightarrow>
          components_higher l r \<or> (components_equal l r \<and> rpre \<and> \<not> lpre)
      | _ \<Rightarrow> False)"

definition version_left_higher_or_equal_then_right :: "string \<Rightarrow> string \<Rightarrow> bool" where
  "version_left_higher_or_equal_then_right left right =
     (case (parse_version left, parse_version right) of
        (Some (l, lpre), Some (r, rpre)) \<Rightarrow>
          components_higher l r \<or> (components_equal l r \<and> (rpre \<or> \<not> lpre))
      | _ \<Rightarrow> False)"

section \<open>Derived properties of a repository\<close>

text \<open>\<^verbatim>\<open>display_installed_version\<close>, \<^verbatim>\<open>display_available_version\<close>, \<^verbatim>\<open>display_version_or_commit\<close>.\<close>

definition display_installed_version :: "HacsRepository \<Rightarrow> string" where
  "display_installed_version r =
     (case installed_version (data r) of
        Some v \<Rightarrow> v
      | None \<Rightarrow> (case installed_commit (data r) of Some c \<Rightarrow> c | None \<Rightarrow> ''''))"

definition display_available_version :: "HacsRepository \<Rightarrow> string" where
  "display_available_version r =
     (case last_version (data r) of
        Some v \<Rightarrow> v
      | None \<Rightarrow> (case last_commit (data r) of Some c \<Rightarrow> c | None \<Rightarrow> ''''))"

definition display_version_or_commit :: "HacsRepository \<Rightarrow> string" where
  "display_version_or_commit r = (if releases (data r) then ''version'' else ''commit'')"

text \<open>\<^verbatim>\<open>can_download\<close>: the host version is compared only when the repository has releases.\<close>

definition can_download :: "hacs \<Rightarrow> HacsRepository \<Rightarrow> bool" where
  "can_download h r =
     (case homeassistant (data r) of
        None \<Rightarrow> True
      | Some minimum \<Rightarrow>
          (if releases (data r)
           then (if \<not> version_left_higher_or_equal_then_right (ha_version h) minimum
                 then False else True)
           else True))"

text \<open>\<^verbatim>\<open>pending_update\<close>, branch by branch as the property is written.\<close>

definition pending_update :: "hacs \<Rightarrow> HacsRepository \<Rightarrow> bool" where
  "pending_update h r =
     (if \<not> can_download h r then False
      else if installed (data r) then
        (if selected_tag (data r) \<noteq> None \<and> selected_tag (data r) = default_branch (data r)
         then (if installed_commit (data r) \<noteq> last_commit (data r) then True else False)
         else if display_version_or_commit r = ''version''
                 \<and> version_left_higher_then_right
                      (display_available_version r) (display_installed_version r)
         then True
         else if display_installed_version r \<noteq> display_available_version r then True
         else False)
      else False)"

text \<open>\<^verbatim>\<open>display_status\<close>.\<close>

definition display_status :: "hacs \<Rightarrow> HacsRepository \<Rightarrow> string" where
  "display_status h r =
     (if new (data r) then ''new''
      else if pending_restart r then ''pending-restart''
      else if pending_update h r then ''pending-upgrade''
      else if installed (data r) then ''installed''
      else ''default'')"

section \<open>Collaborators outside the sources\<close>

text \<open>
  The methods call code that is not part of the sources: the subclass method
  \<^verbatim>\<open>update_repository\<close> and the hooks \<^verbatim>\<open>async_pre_install\<close>,
  \<^verbatim>\<open>async_post_installation\<close> and \<^verbatim>\<open>reload_custom_components\<close>; the helpers
  \<^verbatim>\<open>version_to_download\<close>, \<^verbatim>\<open>download_content\<close>, \<^verbatim>\<open>async_download_file\<close>,
  \<^verbatim>\<open>get_repository\<close>, \<^verbatim>\<open>get_info_md_content\<close>, \<^verbatim>\<open>is_safe\<close> and
  \<^verbatim>\<open>async_remove_store\<close>; the remote repository object; the check classes; and the Python
  library (\<^verbatim>\<open>json.loads\<close>, \<^verbatim>\<open>datetime.strptime\<close>, \<^verbatim>\<open>str\<close>, \<^verbatim>\<open>tempfile\<close>,
  \<^verbatim>\<open>zipfile\<close>, \<^verbatim>\<open>os\<close>). \<^verbatim>\<open>load_repository_checks\<close> is in the sources, but what it
  registers is what \<^verbatim>\<open>glob\<close> and \<^verbatim>\<open>importlib\<close> find on disk, so the registry it leaves is
  a parameter too. Each is a parameter: the theorems hold for every choice of them. What
  the spec says of \<^verbatim>\<open>update_repository\<close> and of \<^verbatim>\<open>version_to_download\<close> is
  \<open>refresh_metadata\<close> and \<open>resolved_version\<close> below; a theorem that rests on that account
  has it among its hypotheses.
  \<open>download_content\<close> gives the errors the helper appends to \<^verbatim>\<open>validate.errors\<close>;
  \<open>get_repository\<close> answers a full name and a caching token with the attributes of the
  remote repository and its new token, or raises;
  \<open>os_raises\<close> says for which paths \<^verbatim>\<open>os.remove\<close> or \<^verbatim>\<open>shutil.rmtree\<close> raises;
  \<open>run_check\<close> gives the \<^verbatim>\<open>failed\<close> flag of a check after \<^verbatim>\<open>_async_run_check\<close>.
\<close>

record external =
  update_repository :: "state \<Rightarrow> (error + unit) \<times> state"
  async_pre_install :: "error option"
  async_post_installation :: "error option"
  reload_custom_components :: "error option"
  version_to_download :: "HacsRepository \<Rightarrow> string"
  download_content :: "HacsRepository \<Rightarrow> string list"
  async_download_file :: "string \<Rightarrow> error + string option"
  mkdtemp :: string
  async_save_file :: "string \<Rightarrow> string \<Rightarrow> bool"
  extractall :: "string \<Rightarrow> string \<Rightarrow> error option"
  is_safe :: "string \<Rightarrow> bool"
  os_raises :: "string \<Rightarrow> bool"
  service_call_raises :: bool
  async_remove_store :: "string \<Rightarrow> error option"
  get_repository :: "string \<Rightarrow> string option \<Rightarrow> error + ((string \<times> json) list \<times> string option)"
  set_last_commit :: "string \<Rightarrow> error + string option"
  get_contents :: "string \<Rightarrow> string option \<Rightarrow> error + string"
  json_loads :: "string \<Rightarrow> error + json"
  strptime :: "string \<Rightarrow> string \<Rightarrow> error + string"
  py_str :: "json \<Rightarrow> string"
  exception_str :: "error \<Rightarrow> string"
  get_info_md_content :: "HacsRepository \<Rightarrow> error + string option"
  load_repository_checks :: "(string \<times> string list) list"
  run_check :: "string \<Rightarrow> HacsRepository \<Rightarrow> bool"

text \<open>How an f-string prints an attribute that may be \<^verbatim>\<open>None\<close>.\<close>

definition py_str_opt :: "string option \<Rightarrow> string" where
  "py_str_opt v = (case v of None \<Rightarrow> ''None'' | Some s \<Rightarrow> s)"

text \<open>Python's truth value of a parsed JSON value.\<close>

fun json_truthy :: "json \<Rightarrow> bool" where
  "json_truthy JNull = False"
| "json_truthy (JBool b) = b"
| "json_truthy (JNum n) = (n \<noteq> 0)"
| "json_truthy (JStr s) = (s \<noteq> [])"
| "json_truthy (JArr xs) = (xs \<noteq> [])"
| "json_truthy (JObj kvs) = (kvs \<noteq> [])"

text \<open>
  Modelled from the spec: the class \<^verbatim>\<open>Validate\<close> (\<^verbatim>\<open>utils/validate.py\<close>) is not part of
  the sources. The spec's install step (4) reads its \<^verbatim>\<open>success\<close> as "the error list is
  empty".
\<close>

definition validate_success :: "HacsRepository \<Rightarrow> bool" where
  "validate_success r = (validate_errors r = [])"

definition append_error :: "string \<Rightarrow> state \<Rightarrow> state" where
  "append_error msg s = set_repository (validate_errors_update (\<lambda>es. es @ [msg])) s"

section \<open>Installation\<close>

text \<open>
  \<^verbatim>\<open>async_download_zip_file\<close>: every exception ends as an entry of the error list. The
  archive is written to \<open>temp_file\<close> and unpacked into the local content path.
\<close>

definition temp_file :: "external \<Rightarrow> state \<Rightarrow> string" where
  "temp_file x s = mkdtemp x @ ''/'' @ filename (data (repository s))"

definition not_downloaded :: "string \<Rightarrow> string" where
  "not_downloaded asset = ''['' @ asset @ ''] was not downloaded''"

definition unpack_zip_file :: "external \<Rightarrow> string \<Rightarrow> string \<Rightarrow> state \<Rightarrow> state" where
  "unpack_zip_file x asset filecontent s =
     (case extractall x (temp_file x s) (py_str_opt (content_path_local (repository s))) of
        Some e \<Rightarrow> append_error ''Download was not completed'' s
      | None \<Rightarrow>
          (if async_save_file x (temp_file x s) filecontent
           then emit (CleanupTemp (mkdtemp x))
                  (emit (ExtractZip (temp_file x s)
                           (py_str_opt (content_path_local (repository s)))) s)
           else append_error (not_downloaded asset)
                  (emit (ExtractZip (temp_file x s)
                           (py_str_opt (content_path_local (repository s)))) s)))"

definition async_download_zip_file :: "external \<Rightarrow> string \<times> string \<Rightarrow> state \<Rightarrow> state" where
  "async_download_zip_file x content s =
     (case async_download_file x (snd content) of
        Inl e \<Rightarrow> append_error ''Download was not completed'' (emit (DownloadZip (snd content)) s)
      | Inr None \<Rightarrow>
          append_error (not_downloaded (fst content)) (emit (DownloadZip (snd content)) s)
      | Inr (Some filecontent) \<Rightarrow>
          unpack_zip_file x (fst content) filecontent (emit (DownloadZip (snd content)) s))"

text \<open>\<^verbatim>\<open>self.ref.split("/")[1]\<close>, with the exceptions it can raise.\<close>

definition ref_tag :: "string option \<Rightarrow> error + string" where
  "ref_tag rf =
     (case rf of
        None \<Rightarrow> Inl AttributeError
      | Some s \<Rightarrow> (case split_on CHR ''/'' s of _ # t # _ \<Rightarrow> Inr t | _ \<Rightarrow> Inl IndexError))"

text \<open>The loop over \<^verbatim>\<open>self.releases.objects\<close>: the last release with the tag gives the assets.\<close>

fun release_contents ::
  "string option \<Rightarrow> release_object list \<Rightarrow> (string \<times> string) list
     \<Rightarrow> error + (string \<times> string) list" where
  "release_contents rf [] acc = Inr acc"
| "release_contents rf (rel # rels) acc =
     (case ref_tag rf of
        Inl e \<Rightarrow> Inl e
      | Inr t \<Rightarrow> release_contents rf rels (if tag_name rel = t then assets rel else acc))"

text \<open>
  \<^verbatim>\<open>download_zip_files\<close>. The queue runs the downloads of the assets; the model runs them
  one after the other, in the order of the assets.
\<close>

definition download_zip_files :: "external \<Rightarrow> state \<Rightarrow> state" where
  "download_zip_files x s =
     (case release_contents (ref (repository s)) (releases_objects (repository s)) [] of
        Inl e \<Rightarrow> append_error ''Download was not completed'' s
      | Inr contents \<Rightarrow> fold (async_download_zip_file x) contents s)"

text \<open>The backup object of the persistent directory that \<^verbatim>\<open>async_install_repository\<close> holds.\<close>

datatype persistent = NoPersistent | PersistentNetDaemon | PersistentBackup string

text \<open>The condition \<^verbatim>\<open>self.data.installed and not self.content.single\<close>.\<close>

definition uses_backup :: "HacsRepository \<Rightarrow> bool" where
  "uses_backup r = (installed (data r) \<and> \<not> content_single r)"

text \<open>The backups taken before the download: of the persistent directory, then of the content.\<close>

definition create_persistent :: "string \<Rightarrow> state \<Rightarrow> persistent \<times> state" where
  "create_persistent local s =
     (if installed (data (repository s)) \<and> category (data (repository s)) = ''netdaemon''
      then (PersistentNetDaemon, emit NetDaemonCreate s)
      else (case persistent_directory (data (repository s)) of
              None \<Rightarrow> (NoPersistent, s)
            | Some d \<Rightarrow>
                (if d \<noteq> [] \<and> (local @ ''/'' @ d) \<in> set (fs s)
                 then (PersistentBackup (local @ ''/'' @ d),
                       emit (BackupCreate (local @ ''/'' @ d)) s)
                 else (NoPersistent, s))))"

definition create_backup :: "string \<Rightarrow> state \<Rightarrow> state" where
  "create_backup local s = (if uses_backup (repository s) then emit (BackupCreate local) s else s)"

text \<open>The download: the assets of the release, or the content of the repository.\<close>

definition download_phase :: "external \<Rightarrow> string \<Rightarrow> state \<Rightarrow> state" where
  "download_phase x version s =
     (if zip_release (data (repository s)) \<and> Some version \<noteq> default_branch (data (repository s))
      then download_zip_files x s
      else fold append_error (download_content x (repository s)) (emit DownloadContent s))"

text \<open>
  After the download: the errors are logged and the backup of the content is restored when
  there are errors; the backup is cleaned up; the persistent directory is restored.
\<close>

definition restore_backup :: "string \<Rightarrow> state \<Rightarrow> state" where
  "restore_backup local s =
     (if validate_errors (repository s) \<noteq> []
      then (if uses_backup (repository s)
            then emit (BackupRestore local)
                   (fold (\<lambda>e. emit (LogError e)) (validate_errors (repository s)) s)
            else fold (\<lambda>e. emit (LogError e)) (validate_errors (repository s)) s)
      else s)"

definition cleanup_backup :: "string \<Rightarrow> state \<Rightarrow> state" where
  "cleanup_backup local s =
     (if uses_backup (repository s) then emit (BackupCleanup local) s else s)"

definition restore_persistent :: "persistent \<Rightarrow> state \<Rightarrow> state" where
  "restore_persistent p s =
     (case p of
        NoPersistent \<Rightarrow> s
      | PersistentNetDaemon \<Rightarrow> emit NetDaemonCleanup (emit NetDaemonRestore s)
      | PersistentBackup d \<Rightarrow> emit (BackupCleanup d) (emit (BackupRestore d) s))"

text \<open>The last statement: the record is marked installed when there are no errors.\<close>

definition mark_installed :: "string \<Rightarrow> state \<Rightarrow> state" where
  "mark_installed version s =
     (if validate_success (repository s)
      then set_data (\<lambda>d. d\<lparr>installed := True,
                           installed_commit := last_commit d,
                           installed_version :=
                             (if Some version = default_branch d then None else Some version)\<rparr>) s
      else s)"

text \<open>
  \<^verbatim>\<open>async_install_repository\<close> from the assignment of \<^verbatim>\<open>self.ref\<close> on, for the version that
  \<^verbatim>\<open>version_to_download\<close> gave.
\<close>

definition set_ref :: "string \<Rightarrow> state \<Rightarrow> state" where
  "set_ref version s =
     set_repository
       (\<lambda>r. r\<lparr>ref := Some (if Some version = default_branch (data r)
                            then version else ''tags/'' @ version)\<rparr>) s"

definition download_and_restore ::
  "external \<Rightarrow> string \<Rightarrow> string \<Rightarrow> persistent \<times> state \<Rightarrow> state" where
  "download_and_restore x local version ps =
     restore_persistent (fst ps)
       (cleanup_backup local (restore_backup local (download_phase x version (snd ps))))"

definition install_version :: "external \<Rightarrow> string \<Rightarrow> string \<Rightarrow> state \<Rightarrow> state" where
  "install_version x local version s =
     mark_installed version
       (download_and_restore x local version
          (case create_persistent local (set_ref version s) of
             (p, s1) \<Rightarrow> (p, create_backup local s1)))"

text \<open>\<^verbatim>\<open>async_install_repository\<close>.\<close>

definition clear_errors :: "state \<Rightarrow> state" where
  "clear_errors s = set_repository (\<lambda>r. r\<lparr>validate_errors := []\<rparr>) s"

definition async_install_repository :: "hacs \<Rightarrow> external \<Rightarrow> state \<Rightarrow> (error + unit) \<times> state" where
  "async_install_repository h x s0 =
     (case update_repository x s0 of
        (Inl e, s1) \<Rightarrow> (Inl e, s1)
      | (Inr u, s1) \<Rightarrow>
          (case content_path_local (repository s1) of
             None \<Rightarrow> (Inl (HacsException ''repository.content.path.local is None''), s1)
           | Some local \<Rightarrow>
               (if \<not> can_download h (repository (clear_errors s1))
                then (Inl (HacsException
                        ''The version of Home Assistant is not compatible with this version''),
                      clear_errors s1)
                else (Inr (),
                      install_version x local
                        (version_to_download x (repository (clear_errors s1)))
                        (clear_errors s1)))))"

text \<open>\<^verbatim>\<open>_async_post_install\<close> and \<^verbatim>\<open>async_install\<close>.\<close>

definition async_post_install :: "external \<Rightarrow> state \<Rightarrow> (error + unit) \<times> state" where
  "async_post_install x s =
     (case async_post_installation x of
        Some e \<Rightarrow> (Inl e, s)
      | None \<Rightarrow>
          (Inr (),
           emit (BusFire ''hacs/repository'' ''install'' (full_name (data (repository s))))
             (set_data (\<lambda>d. d\<lparr>new := False\<rparr>) s)))"

definition async_install :: "hacs \<Rightarrow> external \<Rightarrow> state \<Rightarrow> (error + unit) \<times> state" where
  "async_install h x s =
     (case async_pre_install x of
        Some e \<Rightarrow> (Inl e, s)
      | None \<Rightarrow>
          (case async_install_repository h x s of
             (Inl e, s1) \<Rightarrow> (Inl e, s1)
           | (Inr u, s1) \<Rightarrow> async_post_install x s1))"

text \<open>
  What the download leaves alone: every attribute of the repository but the error list, and
  the file system of the model; the effects so far stay the first effects.
\<close>

definition same_record :: "state \<Rightarrow> state \<Rightarrow> bool" where
  "same_record s s' =
     ((\<exists>es. repository s' = (repository s)\<lparr>validate_errors := es\<rparr>)
      \<and> fs s' = fs s
      \<and> prefix (trace s) (trace s'))"

text \<open>
  Modelled from the spec: \<^verbatim>\<open>version_to_download\<close> (\<^verbatim>\<open>utils/version.py\<close>) is not part of
  the sources. The spec's \<^verbatim>\<open>refToFetch\<close> gives \<^verbatim>\<open>tags/<version>\<close> when releases are used
  and a version was resolved, otherwise the default branch, and a pinned ref (the selected
  tag of the record) wins over both. The sources build the ref from the version the helper
  returns, so the helper returns the pinned ref when there is one, else the last version
  when the repository has releases and a version is known, else the default branch.
\<close>

definition resolved_version :: "HacsRepository \<Rightarrow> string option" where
  "resolved_version r =
     (case selected_tag (data r) of
        Some pinned \<Rightarrow> Some pinned
      | None \<Rightarrow>
          (if releases (data r) \<and> last_version (data r) \<noteq> None then last_version (data r)
           else default_branch (data r)))"




section \<open>Removal\<close>

text \<open>The property \<^verbatim>\<open>RepositoryData.name\<close>.\<close>

definition name_of :: "RepositoryData \<Rightarrow> string" where
  "name_of d =
     (if category d = ''integration'' \<or> category d = ''netdaemon'' then domain d
      else last (split_on CHR ''/'' (full_name d)))"

text \<open>
  The local file system is the list of the paths that exist. \<^verbatim>\<open>os.remove\<close> takes one path
  away, \<^verbatim>\<open>shutil.rmtree\<close> a path and everything below it.
\<close>

definition os_remove :: "string \<Rightarrow> state \<Rightarrow> state" where
  "os_remove p s = emit (OsRemove p) (s\<lparr>fs := removeAll p (fs s)\<rparr>)"

definition rmtree :: "string \<Rightarrow> state \<Rightarrow> state" where
  "rmtree p s =
     emit (Rmtree p) (s\<lparr>fs := filter (\<lambda>q. q \<noteq> p \<and> \<not> prefix (p @ ''/'') q) (fs s)\<rparr>)"

text \<open>
  The loop \<^verbatim>\<open>while os.path.exists(local_path): await sleep(1)\<close>. Nothing but the method
  itself changes the file system of the model, so the loop returns exactly when the path is
  gone; while the path exists it does not return, which is the value \<open>None\<close>.
\<close>

partial_function (option) wait_removed :: "string list \<Rightarrow> string \<Rightarrow> unit option" where
  "wait_removed paths p = (if p \<in> set paths then wait_removed paths p else Some ())"

text \<open>
  The path \<^verbatim>\<open>local_path\<close> that \<^verbatim>\<open>remove_local_directory\<close> removes: one file for a
  \<^verbatim>\<open>python_script\<close>, the local content path otherwise; and the file of a theme under the
  theme path of the configuration.
\<close>

definition local_target :: "HacsRepository \<Rightarrow> string option" where
  "local_target r =
     (if category (data r) = ''python_script''
      then Some (py_str_opt (content_path_local r) @ ''/'' @ name_of (data r) @ ''.py'')
      else content_path_local r)"

definition theme_yaml :: "hacs \<Rightarrow> HacsRepository \<Rightarrow> string" where
  "theme_yaml h r = config_path h @ ''/'' @ theme_path h @ ''/'' @ name_of (data r) @ ''.yaml''"

text \<open>\<^verbatim>\<open>os.remove\<close> for a \<^verbatim>\<open>python_script\<close>, \<^verbatim>\<open>shutil.rmtree\<close> for every other category.\<close>

definition remove_path :: "string \<Rightarrow> state \<Rightarrow> state" where
  "remove_path p s =
     (if category (data (repository s)) = ''python_script'' then os_remove p s else rmtree p s)"

text \<open>
  The second half of \<^verbatim>\<open>remove_local_directory\<close>, from \<^verbatim>\<open>os.path.exists(local_path)\<close> on.
  \<^verbatim>\<open>os.path.exists(None)\<close> raises, and the method's handler returns \<^verbatim>\<open>False\<close>, as it
  does when the removal raises.
\<close>

definition remove_target ::
  "external \<Rightarrow> string option \<Rightarrow> state \<Rightarrow> ((error + bool) \<times> state) option" where
  "remove_target x target s =
     (case target of
        None \<Rightarrow> Some (Inr False, s)
      | Some local_path \<Rightarrow>
          (if local_path \<in> set (fs s) then
             (if \<not> is_safe x local_path
              then Some (Inr False, emit (LogError ''%s Path %s is blocked from removal'') s)
              else if os_raises x local_path then Some (Inr False, s)
              else (case wait_removed (fs (remove_path local_path s)) local_path of
                      None \<Rightarrow> None
                    | Some u \<Rightarrow> Some (Inr True, remove_path local_path s)))
           else Some (Inr True, s)))"

text \<open>
  \<^verbatim>\<open>remove_local_directory\<close>. The file of a theme is removed first, with no check of the
  path. In that branch \<^verbatim>\<open>local_path\<close> is not yet bound when \<^verbatim>\<open>os.remove\<close> raises, so the
  handler's own log call raises \<^verbatim>\<open>UnboundLocalError\<close>.
\<close>

definition remove_local_directory ::
  "hacs \<Rightarrow> external \<Rightarrow> state \<Rightarrow> ((error + bool) \<times> state) option" where
  "remove_local_directory h x s =
     (if category (data (repository s)) = ''python_script''
      then remove_target x (local_target (repository s)) s
      else if category (data (repository s)) = ''theme'' then
        (if theme_yaml h (repository s) \<in> set (fs s)
         then (if os_raises x (theme_yaml h (repository s)) then Some (Inl UnboundLocalError, s)
               else remove_target x (local_target (repository s))
                      (os_remove (theme_yaml h (repository s)) s))
         else remove_target x (local_target (repository s)) s)
      else if category (data (repository s)) = ''integration'' then
        (if domain (data (repository s)) = []
         then Some (Inr False, emit (LogError ''%s Missing domain'') s)
         else remove_target x (local_target (repository s)) s)
      else remove_target x (local_target (repository s)) s)"

text \<open>
  The end of \<^verbatim>\<open>uninstall\<close>: the store file of the repository is removed, the installed
  version and commit are cleared, the event is fired.
\<close>

definition store_key :: "state \<Rightarrow> string" where
  "store_key s = ''hacs/'' @ id_repository (data (repository s)) @ ''.hacs''"

definition remove_store_and_fire :: "external \<Rightarrow> state \<Rightarrow> (error + unit) \<times> state" where
  "remove_store_and_fire x s =
     (case async_remove_store x (store_key s) of
        Some e \<Rightarrow> (Inl e, s)
      | None \<Rightarrow>
          (Inr (),
           emit (BusFire ''hacs/repository'' ''uninstall'' (full_name (data (repository s))))
             (set_data (\<lambda>d. d\<lparr>installed_version := None, installed_commit := None\<rparr>)
                (emit (RemoveStore (store_key s)) s))))"

text \<open>
  The part of \<^verbatim>\<open>uninstall\<close> after \<^verbatim>\<open>self.data.installed = False\<close>: the steps of the
  category, then the end above. An exception of the theme reload is swallowed.
\<close>

definition uninstall_finish :: "external \<Rightarrow> state \<Rightarrow> (error + unit) \<times> state" where
  "uninstall_finish x s =
     (if category (data (repository s)) = ''integration'' then
        (if config_flow (data (repository s)) then
           (case reload_custom_components x of
              Some e \<Rightarrow> (Inl e, s)
            | None \<Rightarrow> remove_store_and_fire x (emit ReloadCustomComponents s))
         else remove_store_and_fire x (set_repository (\<lambda>r. r\<lparr>pending_restart := True\<rparr>) s))
      else if category (data (repository s)) = ''theme'' then
        (if service_call_raises x then remove_store_and_fire x s
         else remove_store_and_fire x (emit (ServiceCall ''frontend'' ''reload_themes'') s))
      else remove_store_and_fire x s)"

text \<open>\<^verbatim>\<open>uninstall\<close>.\<close>

definition uninstall :: "hacs \<Rightarrow> external \<Rightarrow> state \<Rightarrow> ((error + unit) \<times> state) option" where
  "uninstall h x s =
     (case remove_local_directory h x s of
        None \<Rightarrow> None
      | Some (Inl e, s1) \<Rightarrow> Some (Inl e, s1)
      | Some (Inr False, s1) \<Rightarrow> Some (Inl (HacsException ''Could not uninstall''), s1)
      | Some (Inr True, s1) \<Rightarrow>
          Some (uninstall_finish x (set_data (\<lambda>d. d\<lparr>installed := False\<rparr>) s1)))"

text \<open>
  What \<^verbatim>\<open>remove_local_directory\<close> may remove from a state: the target, after the check,
  with the call for its category; and the file of a theme.
\<close>

definition allowed_removal :: "hacs \<Rightarrow> external \<Rightarrow> state \<Rightarrow> effect \<Rightarrow> bool" where
  "allowed_removal h x s e =
     (case e of
        Rmtree q \<Rightarrow>
          category (data (repository s)) \<noteq> ''python_script''
          \<and> local_target (repository s) = Some q \<and> is_safe x q
      | OsRemove q \<Rightarrow>
          (category (data (repository s)) = ''python_script''
           \<and> local_target (repository s) = Some q \<and> is_safe x q)
          \<or> (category (data (repository s)) = ''theme'' \<and> q = theme_yaml h (repository s))
      | _ \<Rightarrow> True)"

section \<open>The manifest\<close>

text \<open>\<^verbatim>\<open>setattr\<close> on an attribute dictionary: an existing attribute keeps its place.\<close>

fun setattr :: "string \<Rightarrow> json \<Rightarrow> (string \<times> json) list \<Rightarrow> (string \<times> json) list" where
  "setattr k v [] = [(k, v)]"
| "setattr k v ((k', v') # kvs) = (if k = k' then (k, v) # kvs else (k', v') # setattr k v kvs)"

text \<open>
  \<^verbatim>\<open>HacsManifest.from_dict\<close>. \<^verbatim>\<open>None\<close> is refused; a value that is not a dictionary has no
  \<^verbatim>\<open>get\<close>; a country given as one non-empty string becomes a list in the dictionary itself,
  before the attributes are set.
\<close>

definition country_as_list :: "(string \<times> json) list \<Rightarrow> (string \<times> json) list" where
  "country_as_list kvs =
     (case map_of kvs ''country'' of
        Some (JStr c) \<Rightarrow> (if c \<noteq> [] then setattr ''country'' (JArr [JStr c]) kvs else kvs)
      | _ \<Rightarrow> kvs)"

definition from_dict :: "json \<Rightarrow> error + HacsManifest" where
  "from_dict manifest =
     (case manifest of
        JNull \<Rightarrow> Inl (HacsException ''Missing manifest data'')
      | JObj kvs \<Rightarrow>
          Inr (fold (\<lambda>(k, v). setattr k v) (country_as_list kvs)
                 [(''manifest'', JObj (country_as_list kvs))])
      | _ \<Rightarrow> Inl AttributeError)"

definition json_str :: "external \<Rightarrow> json \<Rightarrow> string" where
  "json_str x v = (case v of JStr s \<Rightarrow> s | _ \<Rightarrow> py_str x v)"

definition json_str_opt :: "external \<Rightarrow> json \<Rightarrow> string option" where
  "json_str_opt x v = (case v of JNull \<Rightarrow> None | _ \<Rightarrow> Some (json_str x v))"

text \<open>
  One round of the loop of \<^verbatim>\<open>RepositoryData.update_data\<close>. A key that is no attribute is
  skipped, and so is the key of an attribute this record leaves out (no modelled method reads
  it). \<^verbatim>\<open>pushed_at\<close> is parsed as a date, which raises on a value that is not a string and
  where \<^verbatim>\<open>strptime\<close> does; \<^verbatim>\<open>id\<close> is stored as its \<^verbatim>\<open>str\<close>. Every other attribute is set
  to the value. Python keeps a value of another JSON type than the annotated one as it is;
  the record holds what the modelled methods read of it: the truth value in a \<^verbatim>\<open>bool\<close>
  attribute, the \<^verbatim>\<open>str\<close> in a string attribute.
\<close>

definition update_key :: "external \<Rightarrow> string \<Rightarrow> json \<Rightarrow> RepositoryData \<Rightarrow> error + RepositoryData" where
  "update_key x key v d =
     (if key = ''pushed_at'' then
        (case v of
           JStr s \<Rightarrow>
             (if s = [] then Inr d
              else (case strptime x s (if CHR ''Z'' \<in> set s then ''%Y-%m-%dT%H:%M:%SZ''
                                       else ''%Y-%m-%dT%H:%M:%S'') of
                      Inl e \<Rightarrow> Inl e
                    | Inr t \<Rightarrow> Inr (d\<lparr>pushed_at := t\<rparr>)))
         | _ \<Rightarrow> Inl TypeError)
      else if key = ''id'' then Inr (d\<lparr>id_repository := json_str x v\<rparr>)
      else if key = ''category'' then Inr (d\<lparr>category := json_str x v\<rparr>)
      else if key = ''config_flow'' then Inr (d\<lparr>config_flow := json_truthy v\<rparr>)
      else if key = ''default_branch'' then Inr (d\<lparr>default_branch := json_str_opt x v\<rparr>)
      else if key = ''domain'' then Inr (d\<lparr>domain := json_str x v\<rparr>)
      else if key = ''etag_repository'' then Inr (d\<lparr>etag_repository := json_str_opt x v\<rparr>)
      else if key = ''filename'' then Inr (d\<lparr>filename := json_str x v\<rparr>)
      else if key = ''full_name'' then Inr (d\<lparr>full_name := json_str x v\<rparr>)
      else if key = ''homeassistant'' then Inr (d\<lparr>homeassistant := json_str_opt x v\<rparr>)
      else if key = ''installed'' then Inr (d\<lparr>installed := json_truthy v\<rparr>)
      else if key = ''installed_commit'' then Inr (d\<lparr>installed_commit := json_str_opt x v\<rparr>)
      else if key = ''installed_version'' then Inr (d\<lparr>installed_version := json_str_opt x v\<rparr>)
      else if key = ''last_commit'' then Inr (d\<lparr>last_commit := json_str_opt x v\<rparr>)
      else if key = ''last_version'' then Inr (d\<lparr>last_version := json_str_opt x v\<rparr>)
      else if key = ''last_updated'' then Inr (d\<lparr>last_updated := v\<rparr>)
      else if key = ''new'' then Inr (d\<lparr>new := json_truthy v\<rparr>)
      else if key = ''persistent_directory''
        then Inr (d\<lparr>persistent_directory := json_str_opt x v\<rparr>)
      else if key = ''releases'' then Inr (d\<lparr>releases := json_truthy v\<rparr>)
      else if key = ''selected_tag'' then Inr (d\<lparr>selected_tag := json_str_opt x v\<rparr>)
      else if key = ''zip_release'' then Inr (d\<lparr>zip_release := json_truthy v\<rparr>)
      else Inr d)"

text \<open>
  \<^verbatim>\<open>RepositoryData.update_data\<close>: the keys in their order. An exception leaves the
  attributes set so far, so the error comes with the data at that point.
\<close>

fun update_data ::
  "external \<Rightarrow> (string \<times> json) list \<Rightarrow> RepositoryData \<Rightarrow> (error option \<times> RepositoryData)" where
  "update_data x [] d = (None, d)"
| "update_data x ((key, v) # kvs) d =
     (case update_key x key v d of
        Inl e \<Rightarrow> (Some e, d)
      | Inr d' \<Rightarrow> update_data x kvs d')"

text \<open>
  The first statements of the \<^verbatim>\<open>try\<close> of \<^verbatim>\<open>get_repository_manifest_content\<close>, which
  assign nothing: fetch \<^verbatim>\<open>hacs.json\<close> at the ref, parse it, build the manifest object.
\<close>

definition fetch_manifest :: "external \<Rightarrow> HacsRepository \<Rightarrow> error + (json \<times> HacsManifest)" where
  "fetch_manifest x r =
     (case repository_object r of
        None \<Rightarrow> Inl AttributeError
      | Some attributes \<Rightarrow>
          (case get_contents x ''hacs.json'' (ref r) of
             Inl e \<Rightarrow> Inl e
           | Inr content \<Rightarrow>
               (case json_loads x content of
                  Inl e \<Rightarrow> Inl e
                | Inr parsed \<Rightarrow>
                    (case from_dict parsed of
                       Inl e \<Rightarrow> Inl e
                     | Inr m \<Rightarrow> Inr (parsed, m)))))"

text \<open>
  The rest of the \<^verbatim>\<open>try\<close>: the manifest object is assigned, then the data is updated from
  the parsed dictionary (parsed a second time by the source, with the same result).
  Iterating a parsed value that is no dictionary cannot be reached: \<^verbatim>\<open>from_dict\<close> has
  raised before.
\<close>

definition json_items :: "json \<Rightarrow> (string \<times> json) list" where
  "json_items parsed = (case parsed of JObj kvs \<Rightarrow> kvs | _ \<Rightarrow> [])"

definition apply_manifest :: "external \<Rightarrow> json \<Rightarrow> HacsManifest \<Rightarrow> state \<Rightarrow> error option \<times> state" where
  "apply_manifest x parsed m s =
     (case update_data x (json_items parsed) (data (repository s)) of
        (e, d) \<Rightarrow>
          (e, set_data (\<lambda>old. d) (set_repository (\<lambda>r. r\<lparr>repository_manifest := m\<rparr>) s)))"

definition load_manifest :: "external \<Rightarrow> state \<Rightarrow> error option \<times> state" where
  "load_manifest x s =
     (case fetch_manifest x (repository s) of
        Inl e \<Rightarrow> (Some e, s)
      | Inr (parsed, m) \<Rightarrow> apply_manifest x parsed m s)"

text \<open>
  \<^verbatim>\<open>get_repository_manifest_content\<close>. \<open>resolve_ref\<close> is the assignment
  \<^verbatim>\<open>self.ref = version_to_download(self)\<close>; \<open>invalid_manifest\<close> the exception raised for an
  exception of the \<^verbatim>\<open>try\<close>.
\<close>

definition resolve_ref :: "external \<Rightarrow> state \<Rightarrow> state" where
  "resolve_ref x s =
     set_repository (\<lambda>r. r\<lparr>ref := Some (version_to_download x (repository s))\<rparr>) s"

definition missing_manifest :: error where
  "missing_manifest = HacsException ''::error:: No hacs.json file in the root of the repository.''"

definition invalid_manifest :: "external \<Rightarrow> error \<Rightarrow> error" where
  "invalid_manifest x e =
     HacsException (''::error:: hacs.json file is not valid ('' @ exception_str x e @ '').'')"

definition get_repository_manifest_content ::
  "hacs \<Rightarrow> external \<Rightarrow> state \<Rightarrow> (error + unit) \<times> state" where
  "get_repository_manifest_content h x s =
     (if ''hacs.json'' \<notin> set (tree (repository s)) then
        (if system_action h then (Inl missing_manifest, s) else (Inr (), s))
      else
        (case load_manifest x (resolve_ref x s) of
           (Some e, s2) \<Rightarrow>
             (if system_action h then (Inl (invalid_manifest x e), s2) else (Inr (), s2))
         | (None, s2) \<Rightarrow> (Inr (), s2)))"

section \<open>Metadata refresh\<close>

text \<open>
  Modelled from the spec: \<^verbatim>\<open>common_update_data\<close> (\<^verbatim>\<open>utils/validate_repository.py\<close>) is
  not part of the sources. The spec has the refresh fetch the attributes of the repository
  from the remote, with the caching token so that an unchanged repository is skipped, and
  without it when the refresh is forced or the repository is installed. \<^verbatim>\<open>NotModified\<close>
  is no error and keeps the prior state; \<^verbatim>\<open>RepositoryRenamed\<close> and every other failure
  of the fetch are raised. An answer is used the way \<^verbatim>\<open>common_registration\<close> of the
  sources uses it: the remote object is attached, the data is updated from its attributes,
  then the new token is stored. The spec gives \<^verbatim>\<open>ignore_issues\<close> no part in this.
\<close>

definition caching_token :: "bool \<Rightarrow> RepositoryData \<Rightarrow> string option" where
  "caching_token force d = (if force \<or> installed d then None else etag_repository d)"

definition attach_repository ::
  "external \<Rightarrow> (string \<times> json) list \<Rightarrow> string option \<Rightarrow> state \<Rightarrow> (error + unit) \<times> state" where
  "attach_repository x attributes etag s =
     (case update_data x attributes (data (repository s)) of
        (Some e, d) \<Rightarrow>
          (Inl e,
           set_data (\<lambda>old. d)
             (set_repository (\<lambda>r. r\<lparr>repository_object := Some attributes\<rparr>) s))
      | (None, d) \<Rightarrow>
          (Inr (),
           set_data (\<lambda>old. d\<lparr>etag_repository := etag\<rparr>)
             (set_repository (\<lambda>r. r\<lparr>repository_object := Some attributes\<rparr>) s)))"

definition common_update_data ::
  "external \<Rightarrow> bool \<Rightarrow> bool \<Rightarrow> state \<Rightarrow> (error + unit) \<times> state" where
  "common_update_data x ignore_issues force s =
     (case get_repository x (full_name (data (repository s)))
             (caching_token force (data (repository s))) of
        Inl e \<Rightarrow> (if e = HacsNotModifiedException then (Inr (), s) else (Inl e, s))
      | Inr (attributes, etag) \<Rightarrow> attach_repository x attributes etag s)"

text \<open>
  The first half of \<^verbatim>\<open>common_update\<close>: \<^verbatim>\<open>common_update_data\<close>, once more under the new name
  when the repository was renamed (a name that is not in the table raises \<^verbatim>\<open>KeyError\<close>).
\<close>

definition update_data_renamed ::
  "hacs \<Rightarrow> external \<Rightarrow> bool \<Rightarrow> bool \<Rightarrow> state \<Rightarrow> (error + unit) \<times> state" where
  "update_data_renamed h x ignore_issues force s =
     (case common_update_data x ignore_issues force s of
        (Inl HacsRepositoryExistException, s1) \<Rightarrow>
          (case map_of (renamed_repositories h) (full_name (data (repository s1))) of
             None \<Rightarrow> (Inl (KeyError (full_name (data (repository s1)))), s1)
           | Some renamed \<Rightarrow>
               common_update_data x ignore_issues force
                 (set_data (\<lambda>d. d\<lparr>full_name := renamed\<rparr>) s1))
      | res \<Rightarrow> res)"

text \<open>
  The second half of \<^verbatim>\<open>common_update\<close>, after the check of the etag: the last update and
  the last commit are stored, the manifest is read, then \<^verbatim>\<open>info.md\<close>.
\<close>

definition pushed_at_of :: "(string \<times> json) list \<Rightarrow> json" where
  "pushed_at_of attributes =
     (case map_of attributes ''pushed_at'' of Some v \<Rightarrow> v | None \<Rightarrow> JNum 0)"

definition refresh_info :: "external \<Rightarrow> (error + unit) \<times> state \<Rightarrow> (error + bool) \<times> state" where
  "refresh_info x res =
     (case res of
        (Inl e, s) \<Rightarrow> (Inl e, s)
      | (Inr u, s) \<Rightarrow>
          (case get_info_md_content x (repository s) of
             Inl e \<Rightarrow> (Inl e, s)
           | Inr info \<Rightarrow> (Inr True, set_repository (\<lambda>r. r\<lparr>additional_info := info\<rparr>) s)))"

definition refresh_commit :: "hacs \<Rightarrow> external \<Rightarrow> state \<Rightarrow> (error + bool) \<times> state" where
  "refresh_commit h x s =
     (case set_last_commit x (full_name (data (repository s))) of
        Inl e \<Rightarrow> (Inl e, s)
      | Inr c \<Rightarrow>
          refresh_info x
            (get_repository_manifest_content h x (set_data (\<lambda>d. d\<lparr>last_commit := c\<rparr>) s)))"

definition refresh_details :: "hacs \<Rightarrow> external \<Rightarrow> state \<Rightarrow> (error + bool) \<times> state" where
  "refresh_details h x s =
     (case repository_object (repository s) of
        None \<Rightarrow> (Inl AttributeError, s)
      | Some attributes \<Rightarrow>
          refresh_commit h x (set_data (\<lambda>d. d\<lparr>last_updated := pushed_at_of attributes\<rparr>) s))"

text \<open>
  \<^verbatim>\<open>common_update\<close>. The etag is remembered before \<^verbatim>\<open>common_update_data\<close> runs and
  compared with the one it leaves.
\<close>

definition common_update ::
  "hacs \<Rightarrow> external \<Rightarrow> bool \<Rightarrow> bool \<Rightarrow> state \<Rightarrow> (error + bool) \<times> state" where
  "common_update h x ignore_issues force s =
     (case update_data_renamed h x ignore_issues force s of
        (Inl e, s1) \<Rightarrow> (Inl e, s1)
      | (Inr u, s1) \<Rightarrow>
          (if \<not> installed (data (repository s1))
              \<and> etag_repository (data (repository s)) = etag_repository (data (repository s1))
              \<and> \<not> force
           then (Inr False, s1)
           else refresh_details h x s1))"




text \<open>
  What an install attempt expects a refresh to leave alone: the attributes that say what is
  installed, whether the content is a single file, the local content path, and the effects
  so far.
\<close>

definition installed_part :: "RepositoryData \<Rightarrow> bool \<times> string option \<times> string option" where
  "installed_part d = (installed d, installed_version d, installed_commit d)"

definition install_view ::
  "state \<Rightarrow> (bool \<times> string option \<times> string option) \<times> bool \<times> string option \<times> effect list" where
  "install_view s =
     (installed_part (data (repository s)), content_single (repository s),
      content_path_local (repository s), trace s)"

section \<open>The checks of \<^verbatim>\<open>validate/__init__.py\<close>\<close>

text \<open>\<^verbatim>\<open>RULES.get(category, [])\<close>.\<close>

definition rules_get :: "(string \<times> string list) list \<Rightarrow> string \<Rightarrow> string list" where
  "rules_get rs c = (case map_of rs c of None \<Rightarrow> [] | Some cs \<Rightarrow> cs)"

text \<open>
  The steps of \<^verbatim>\<open>async_run_repository_checks\<close>: the registry is loaded when it is empty;
  the checks are those under \<^verbatim>\<open>common\<close>, then those under the category; they run (the
  model runs them in the order of the list, each leaving a \<open>RunCheck\<close>); the failed ones
  are counted.
\<close>

definition load_rules :: "external \<Rightarrow> state \<Rightarrow> state" where
  "load_rules x s = (if rules s = [] then s\<lparr>rules := load_repository_checks x\<rparr> else s)"

definition checks_of :: "state \<Rightarrow> string list" where
  "checks_of s =
     rules_get (rules s) ''common'' @ rules_get (rules s) (category (data (repository s)))"

definition run_checks :: "state \<Rightarrow> state" where
  "run_checks s = fold (\<lambda>c. emit (RunCheck c)) (checks_of s) s"

definition failed :: "external \<Rightarrow> state \<Rightarrow> nat" where
  "failed x s = length (filter (\<lambda>c. run_check x c (repository s)) (checks_of s))"

definition checks_failed :: "external \<Rightarrow> state \<Rightarrow> string" where
  "checks_failed x s =
     str_of_nat (failed x s) @ ''/'' @ str_of_nat (length (checks_of s)) @ '' checks failed''"

text \<open>\<^verbatim>\<open>async_run_repository_checks\<close>.\<close>

definition async_run_repository_checks ::
  "hacs \<Rightarrow> external \<Rightarrow> state \<Rightarrow> (error + unit) \<times> state" where
  "async_run_repository_checks h x s =
     (if \<not> system_running h then (Inr (), s)
      else if failed x (load_rules x s) \<noteq> 0 \<and> action h
      then (Inl (SystemExit (''::error::'' @ checks_failed x (load_rules x s))),
            run_checks (load_rules x s))
      else if failed x (load_rules x s) \<noteq> 0
      then (Inr (),
            emit (LogError (checks_failed x (load_rules x s))) (run_checks (load_rules x s)))
      else (Inr (), run_checks (load_rules x s)))"

section \<open>Concrete repositories\<close>

text \<open>
  The defaults of \<^verbatim>\<open>RepositoryData\<close> and of \<^verbatim>\<open>HacsRepository.__init__\<close>, a host at version
  2023.12.0 running interactively, and one choice of the collaborators: every call succeeds,
  nothing is renamed, \<^verbatim>\<open>version_to_download\<close> gives the last version when there is one and
  the default branch otherwise, the remote answers "not modified" to the token \<^verbatim>\<open>etag-1\<close>
  and with the attributes and that token otherwise, and the check \<^verbatim>\<open>p1\<close> of the plugins
  fails.
\<close>

definition data_default :: RepositoryData where
  "data_default =
     \<lparr>category = [], config_flow = False, default_branch = None, domain = [],
      etag_repository = None, filename = [], full_name = [], homeassistant = None,
      id_repository = ''0'', installed = False, installed_commit = None,
      installed_version = None, last_commit = None, last_version = None,
      last_updated = JNum 0, new = True, persistent_directory = None, pushed_at = [],
      releases = False, selected_tag = None, zip_release = False\<rparr>"

definition repository_default :: HacsRepository where
  "repository_default =
     \<lparr>data = data_default, content_path_local = None, content_single = False,
      repository_object = None, repository_manifest = [(''manifest'', JObj [])],
      validate_errors = [], releases_objects = [], pending_restart = False, tree = [],
      ref = None, additional_info = None\<rparr>"

definition state_of :: "HacsRepository \<Rightarrow> string list \<Rightarrow> state" where
  "state_of r paths = \<lparr>repository = r, fs = paths, trace = [], rules = []\<rparr>"

definition hacs_example :: hacs where
  "hacs_example =
     \<lparr>ha_version = ''2023.12.0'', system_action = False, system_running = True,
      action = False, renamed_repositories = [], config_path = ''/config'',
      theme_path = ''themes''\<rparr>"

definition external_example :: external where
  "external_example =
     \<lparr>update_repository = (\<lambda>s. (Inr (), s)),
      async_pre_install = None,
      async_post_installation = None,
      reload_custom_components = None,
      version_to_download =
        (\<lambda>r. case last_version (data r) of
                Some v \<Rightarrow> v
              | None \<Rightarrow> py_str_opt (default_branch (data r))),
      download_content = (\<lambda>r. []),
      async_download_file = (\<lambda>url. Inr (Some ''PK'')),
      mkdtemp = ''/tmp/tmp0'',
      async_save_file = (\<lambda>file content. True),
      extractall = (\<lambda>file target. None),
      is_safe = (\<lambda>p. p \<noteq> ''/config/themes''),
      os_raises = (\<lambda>p. False),
      service_call_raises = False,
      async_remove_store = (\<lambda>key. None),
      get_repository =
        (\<lambda>name token.
           if token = Some ''etag-1'' then Inl HacsNotModifiedException
           else Inr ([(''default_branch'', JStr ''main'')], Some ''etag-1'')),
      set_last_commit = (\<lambda>name. Inr (Some ''def456'')),
      get_contents = (\<lambda>file rf. Inr ''{}''),
      json_loads = (\<lambda>content. Inr (JObj [])),
      strptime = (\<lambda>s format. Inr s),
      py_str = (\<lambda>v. []),
      exception_str = (\<lambda>e. []),
      get_info_md_content = (\<lambda>r. Inr None),
      load_repository_checks = [(''common'', [''c1'']), (''plugin'', [''p1''])],
      run_check = (\<lambda>c r. c = ''p1'')\<rparr>"

text \<open>
  An installed repository with releases, at version \<open>installed_v\<close> while \<open>available_v\<close> is the
  last version.
\<close>

definition released :: "string \<Rightarrow> string \<Rightarrow> HacsRepository" where
  "released installed_v available_v =
     repository_default\<lparr>data := data_default\<lparr>full_name := ''acme/widget'',
        category := ''plugin'', default_branch := Some ''main'', installed := True,
        new := False, releases := True, installed_version := Some installed_v,
        last_version := Some available_v, installed_commit := Some ''abc123'',
        last_commit := Some ''abc123''\<rparr>,
        content_path_local := Some ''/config/www/community/widget''\<rparr>"

text \<open>
  An installed repository without releases, at commit \<open>installed_c\<close> while \<open>available_c\<close> is
  the last commit of the default branch; and a repository whose manifest asks for a minimum
  version of the host.
\<close>

definition tracked :: "string \<Rightarrow> string \<Rightarrow> HacsRepository" where
  "tracked installed_c available_c =
     repository_default\<lparr>data := data_default\<lparr>full_name := ''acme/widget'',
        category := ''plugin'', default_branch := Some ''main'', installed := True,
        new := False, installed_commit := Some installed_c,
        last_commit := Some available_c\<rparr>,
        content_path_local := Some ''/config/www/community/widget''\<rparr>"

definition needs_host :: "string \<Rightarrow> HacsRepository \<Rightarrow> HacsRepository" where
  "needs_host minimum r = r\<lparr>data := (data r)\<lparr>homeassistant := Some minimum\<rparr>\<rparr>"

text \<open>
  A repository that was just discovered (not installed, no releases); an installed one whose
  release 1.1.0 ships two zip assets; and a network on which the second asset cannot be
  fetched.
\<close>

definition discovered :: HacsRepository where
  "discovered =
     repository_default\<lparr>data := data_default\<lparr>full_name := ''acme/widget'',
        category := ''plugin'', default_branch := Some ''main'',
        last_commit := Some ''def456''\<rparr>,
        content_path_local := Some ''/config/www/community/widget''\<rparr>"

definition zip_released :: HacsRepository where
  "zip_released =
     (released ''1.0.0'' ''1.1.0'')
       \<lparr>data := (data (released ''1.0.0'' ''1.1.0''))
                  \<lparr>zip_release := True, filename := ''widget.zip''\<rparr>,
        releases_objects :=
          [\<lparr>tag_name = ''1.1.0'',
            assets = [(''a.zip'', ''https://example.org/a.zip''),
                      (''b.zip'', ''https://example.org/b.zip'')]\<rparr>]\<rparr>"

definition external_network_error :: external where
  "external_network_error =
     external_example
       \<lparr>async_download_file :=
          (\<lambda>url. if url = ''https://example.org/b.zip''
                 then Inl (OtherException ''network'') else Inr (Some ''PK''))\<rparr>"

text \<open>
  A run in automated mode; a host that is not running yet; a repository whose tree holds
  \<^verbatim>\<open>hacs.json\<close>; and a parser that rejects the content of the file.
\<close>

definition hacs_action :: hacs where
  "hacs_action = hacs_example\<lparr>system_action := True, action := True\<rparr>"

definition hacs_not_running :: hacs where
  "hacs_not_running = hacs_example\<lparr>system_running := False, action := True\<rparr>"

definition with_manifest_file :: "HacsRepository \<Rightarrow> HacsRepository" where
  "with_manifest_file r = r\<lparr>tree := [''README.md'', ''hacs.json''], repository_object := Some []\<rparr>"

definition external_bad_json :: external where
  "external_bad_json =
     external_example\<lparr>json_loads := (\<lambda>content. Inl (OtherException ''Expecting value'')),
                       exception_str := (\<lambda>e. ''Expecting value'')\<rparr>"

text \<open>
  An installed theme whose local content path is the theme directory itself, which
  \<open>is_safe\<close> of the collaborators above refuses; its file \<^verbatim>\<open>midnight.yaml\<close> exists. And an
  installed plugin with its directory on disk.
\<close>

definition theme_repository :: HacsRepository where
  "theme_repository =
     repository_default\<lparr>data := data_default\<lparr>full_name := ''acme/midnight'',
        category := ''theme'', default_branch := Some ''main'', installed := True,
        new := False, installed_commit := Some ''abc123'', last_commit := Some ''abc123''\<rparr>,
        content_path_local := Some ''/config/themes''\<rparr>"

definition theme_state :: state where
  "theme_state = state_of theme_repository [''/config/themes'', ''/config/themes/midnight.yaml'']"

definition plugin_state :: state where
  "plugin_state =
     state_of (tracked ''abc123'' ''abc123'')
       [''/config/www/community/widget'', ''/config/www/community/widget/widget.js'',
        ''/config/www/community/other'']"

definition misplaced_plugin_state :: state where
  "misplaced_plugin_state =
     state_of ((tracked ''abc123'' ''abc123'')\<lparr>content_path_local := Some ''/config/themes''\<rparr>)
       [''/config/themes'', ''/config/themes/midnight.yaml'']"

text \<open>
  A discovered repository whose attributes were fetched before, so that it holds the token
  the remote of the collaborators above knows. Collaborators whose \<^verbatim>\<open>update_repository\<close>
  is the refresh of the spec, on the network with the failing asset; the same with a
  \<^verbatim>\<open>hacs.json\<close> that has the key \<^verbatim>\<open>installed_version\<close>. A discovered repository pinned
  to the branch \<^verbatim>\<open>dev\<close>, and collaborators whose \<^verbatim>\<open>version_to_download\<close> is the one of
  the spec.
\<close>

definition known :: HacsRepository where
  "known = discovered\<lparr>data := (data discovered)\<lparr>etag_repository := Some ''etag-1''\<rparr>\<rparr>"



definition pinned :: HacsRepository where
  "pinned = discovered\<lparr>data := (data discovered)\<lparr>selected_tag := Some ''dev''\<rparr>\<rparr>"

definition external_resolving :: external where
  "external_resolving =
     external_example\<lparr>version_to_download := (\<lambda>r. py_str_opt (resolved_version r))\<rparr>"

section \<open>Facts about the version comparison\<close>

lemmas version_eval =
  version_left_higher_then_right_def version_left_higher_or_equal_then_right_def
  parse_version_def parse_component_def digit_val_def dotted_numeric_def

lemmas example_defs =
  data_default_def repository_default_def state_of_def hacs_example_def
  external_example_def released_def tracked_def needs_host_def discovered_def
  zip_released_def external_network_error_def hacs_action_def hacs_not_running_def
  with_manifest_file_def external_bad_json_def theme_repository_def theme_state_def
  plugin_state_def misplaced_plugin_state_def known_def pinned_def external_resolving_def

lemmas status_eval =
  pending_update_def can_download_def display_version_or_commit_def
  display_available_version_def display_installed_version_def

lemma components_higher_irrefl: "\<not> components_higher l l"
  by (induction l) auto

lemma components_equal_sym: "components_equal l r = components_equal r l"
  by (induction l r rule: components_equal.induct) auto

lemma components_equal_not_higher: "components_equal l r \<Longrightarrow> \<not> components_higher l r"
  by (induction l r rule: components_higher.induct) auto

lemma components_equal_not_lower: "components_equal l r \<Longrightarrow> \<not> components_higher r l"
  using components_equal_not_higher components_equal_sym by blast

lemma components_higher_not_equal: "components_higher l r \<Longrightarrow> \<not> components_equal r l"
  using components_equal_not_lower by blast

lemma components_higher_asym: "components_higher l r \<Longrightarrow> \<not> components_higher r l"
  by (induction l r rule: components_higher.induct) auto

lemma version_higher_irrefl: "\<not> version_left_higher_then_right a a"
  by (auto simp: version_left_higher_then_right_def components_higher_irrefl
      split: option.splits)

lemma version_higher_not_lower_or_equal:
  "version_left_higher_then_right m v \<Longrightarrow> \<not> version_left_higher_or_equal_then_right v m"
  by (auto simp: version_left_higher_then_right_def version_left_higher_or_equal_then_right_def
      dest: components_higher_asym components_equal_not_lower components_higher_not_equal
      split: option.splits)

section \<open>The display status\<close>

text \<open>
  Claim C5. \<^verbatim>\<open>display_status\<close> is decided in a fixed order: a new repository reports
  "new"; otherwise a pending restart gives "pending-restart"; otherwise a pending update
  gives "pending-upgrade"; otherwise an installed repository reports "installed"; and
  everything else "default". So a new repository with a pending update reports "new", and an
  installed one with a pending restart reports "pending-restart".
\<close>

theorem display_status_priority:
  "(new (data r) \<longrightarrow> display_status h r = ''new'')
   \<and> (\<not> new (data r) \<and> pending_restart r \<longrightarrow> display_status h r = ''pending-restart'')
   \<and> (\<not> new (data r) \<and> \<not> pending_restart r \<and> pending_update h r
        \<longrightarrow> display_status h r = ''pending-upgrade'')
   \<and> (\<not> new (data r) \<and> \<not> pending_restart r \<and> \<not> pending_update h r \<and> installed (data r)
        \<longrightarrow> display_status h r = ''installed'')
   \<and> (\<not> new (data r) \<and> \<not> pending_restart r \<and> \<not> pending_update h r
        \<and> \<not> installed (data r)
        \<longrightarrow> display_status h r = ''default'')"
  by (simp add: display_status_def)

theorem display_status_priority_witness:
  "new (data ((released ''1.0.0'' ''1.1.0'')
                \<lparr>data := (data (released ''1.0.0'' ''1.1.0''))\<lparr>new := True\<rparr>\<rparr>))
   \<and> pending_update hacs_example
        ((released ''1.0.0'' ''1.1.0'')
           \<lparr>data := (data (released ''1.0.0'' ''1.1.0''))\<lparr>new := True\<rparr>\<rparr>)
   \<and> display_status hacs_example
        ((released ''1.0.0'' ''1.1.0'')
           \<lparr>data := (data (released ''1.0.0'' ''1.1.0''))\<lparr>new := True\<rparr>\<rparr>) = ''new''
   \<and> installed (data ((released ''1.0.0'' ''1.0.0'')\<lparr>pending_restart := True\<rparr>))
   \<and> display_status hacs_example ((released ''1.0.0'' ''1.0.0'')\<lparr>pending_restart := True\<rparr>)
        = ''pending-restart''
   \<and> display_status hacs_example (released ''1.0.0'' ''1.1.0'') = ''pending-upgrade''
   \<and> display_status hacs_example (released ''1.0.0'' ''1.0.0'') = ''installed''
   \<and> display_status hacs_example (repository_default\<lparr>data := data_default\<lparr>new := False\<rparr>\<rparr>)
        = ''default''"
  using
    display_status_priority
      [of "(released ''1.0.0'' ''1.1.0'')
             \<lparr>data := (data (released ''1.0.0'' ''1.1.0''))\<lparr>new := True\<rparr>\<rparr>" hacs_example]
    display_status_priority
      [of "(released ''1.0.0'' ''1.0.0'')\<lparr>pending_restart := True\<rparr>" hacs_example]
    display_status_priority [of "released ''1.0.0'' ''1.1.0''" hacs_example]
    display_status_priority [of "released ''1.0.0'' ''1.0.0''" hacs_example]
    display_status_priority
      [of "repository_default\<lparr>data := data_default\<lparr>new := False\<rparr>\<rparr>" hacs_example]
  by (simp add: status_eval example_defs version_eval)

text \<open>
  Claim C10. A repository whose \<^verbatim>\<open>installed\<close> flag is false has no pending update,
  whatever its versions, commits, selected tag and host requirement are, and so never shows
  the status "pending-upgrade".
\<close>

theorem not_installed_no_pending_update:
  "\<not> installed (data r) \<Longrightarrow>
     \<not> pending_update h r \<and> display_status h r \<noteq> ''pending-upgrade''"
  by (simp add: pending_update_def display_status_def)

theorem not_installed_no_pending_update_witness:
  "\<not> installed (data ((released ''1.0.0'' ''1.1.0'')
          \<lparr>data := (data (released ''1.0.0'' ''1.1.0''))\<lparr>installed := False\<rparr>\<rparr>))
   \<and> last_version (data ((released ''1.0.0'' ''1.1.0'')
          \<lparr>data := (data (released ''1.0.0'' ''1.1.0''))\<lparr>installed := False\<rparr>\<rparr>)) = Some ''1.1.0''
   \<and> \<not> pending_update hacs_example
          ((released ''1.0.0'' ''1.1.0'')
             \<lparr>data := (data (released ''1.0.0'' ''1.1.0''))\<lparr>installed := False\<rparr>\<rparr>)
   \<and> display_status hacs_example
          ((released ''1.0.0'' ''1.1.0'')
             \<lparr>data := (data (released ''1.0.0'' ''1.1.0''))\<lparr>installed := False\<rparr>\<rparr>)
        \<noteq> ''pending-upgrade''"
proof -
  have n: "\<not> installed (data ((released ''1.0.0'' ''1.1.0'')
          \<lparr>data := (data (released ''1.0.0'' ''1.1.0''))\<lparr>installed := False\<rparr>\<rparr>))"
    by simp
  have v: "last_version (data ((released ''1.0.0'' ''1.1.0'')
          \<lparr>data := (data (released ''1.0.0'' ''1.1.0''))\<lparr>installed := False\<rparr>\<rparr>)) = Some ''1.1.0''"
    by (simp add: example_defs)
  from not_installed_no_pending_update [OF n, of hacs_example] n v show ?thesis by simp
qed

section \<open>Pending updates and the host version\<close>

lemmas install_defs =
  async_install_repository_def install_version_def download_and_restore_def
  create_persistent_def create_backup_def download_phase_def restore_backup_def
  cleanup_backup_def restore_persistent_def mark_installed_def uses_backup_def
  validate_success_def set_ref_def clear_errors_def set_repository_def set_data_def emit_def
  append_error_def download_zip_files_def async_download_zip_file_def unpack_zip_file_def
  temp_file_def not_downloaded_def ref_tag_def py_str_opt_def

text \<open>
  Claim C1: for dotted numeric versions \<open>a\<close> higher than \<open>b\<close>, a repository in release mode
  reports a pending update with \<open>b\<close> installed and \<open>a\<close> available, none with \<open>a\<close> installed
  and \<open>b\<close> available, and none when the two are the same string. \<^verbatim>\<open>pending_update\<close>
  compares the two versions in one branch, which answers true when the available version is
  the higher one, and otherwise goes on to the comparison of the two strings, which answers
  true whenever they differ. So for an installed repository with releases that can be
  downloaded and is not pinned to its default branch the answer is "the strings differ",
  whatever the comparison of the versions said: with 2.0.0 installed and 1.0.0 available an
  update is pending, although 2.0.0 is the higher version. The theorem evaluates the
  property there.
\<close>

lemma pending_update_compares_strings:
  assumes "installed (data r)" and "releases (data r)" and "can_download h r"
      and "selected_tag (data r) = None \<or> selected_tag (data r) \<noteq> default_branch (data r)"
      and "installed_version (data r) = Some b" and "last_version (data r) = Some a"
  shows "pending_update h r = (a \<noteq> b)"
  using assms
  by (auto simp: pending_update_def display_version_or_commit_def display_available_version_def
      display_installed_version_def version_higher_irrefl)

theorem pending_update_reported_for_older_version:
  "dotted_numeric ''2.0.0'' \<and> dotted_numeric ''1.0.0''
   \<and> version_left_higher_then_right ''2.0.0'' ''1.0.0''
   \<and> \<not> version_left_higher_then_right ''1.0.0'' ''2.0.0''
   \<and> installed (data (released ''2.0.0'' ''1.0.0''))
   \<and> releases (data (released ''2.0.0'' ''1.0.0''))
   \<and> selected_tag (data (released ''2.0.0'' ''1.0.0'')) = None
   \<and> can_download hacs_example (released ''2.0.0'' ''1.0.0'')
   \<and> installed_version (data (released ''2.0.0'' ''1.0.0'')) = Some ''2.0.0''
   \<and> last_version (data (released ''2.0.0'' ''1.0.0'')) = Some ''1.0.0''
   \<and> pending_update hacs_example (released ''2.0.0'' ''1.0.0'')"
  by (simp add: status_eval example_defs version_eval)

text \<open>
  Claim C3, as the code has it. \<^verbatim>\<open>can_download\<close> compares the host version only for a
  repository that has releases. For such a repository whose manifest asks for a higher
  version than the host runs, \<^verbatim>\<open>can_download\<close> and \<^verbatim>\<open>pending_update\<close> are false, and
  \<^verbatim>\<open>async_install_repository\<close>, once \<^verbatim>\<open>update_repository\<close> has returned and the local
  content path is set, raises the compatibility error having only emptied the error list:
  no backup and no download precede it. Without releases the requirement is not looked at
  (the counterexample).
\<close>

theorem host_too_old_blocks_download:
  assumes "homeassistant (data r) = Some minimum" and "releases (data r)"
      and "version_left_higher_then_right minimum (ha_version h)"
  shows "\<not> can_download h r \<and> \<not> pending_update h r
     \<and> (\<forall>x s0 s1 local.
           update_repository x s0 = (Inr (), s1) \<and> repository s1 = r
             \<and> content_path_local r = Some local
           \<longrightarrow> async_install_repository h x s0
                 = (Inl (HacsException
                      ''The version of Home Assistant is not compatible with this version''),
                    clear_errors s1)
               \<and> trace (snd (async_install_repository h x s0)) = trace s1
               \<and> fs (snd (async_install_repository h x s0)) = fs s1)"
proof -
  from assms have c: "\<not> can_download h r"
    by (simp add: can_download_def version_higher_not_lower_or_equal)
  then have p: "\<not> pending_update h r" by (simp add: pending_update_def)
  have "async_install_repository h x s0
          = (Inl (HacsException
               ''The version of Home Assistant is not compatible with this version''),
             clear_errors s1)
        \<and> trace (snd (async_install_repository h x s0)) = trace s1
        \<and> fs (snd (async_install_repository h x s0)) = fs s1"
    if "update_repository x s0 = (Inr (), s1)" "repository s1 = r"
      "content_path_local r = Some local" for x s0 s1 local
  proof -
    have "can_download h (repository (clear_errors s1)) = can_download h (repository s1)"
      by (simp add: can_download_def clear_errors_def set_repository_def split: option.splits)
    then have "\<not> can_download h (repository (clear_errors s1))"
      using c that(2) by simp
    then show ?thesis using that
      by (simp add: async_install_repository_def clear_errors_def set_repository_def)
  qed
  with c p show ?thesis by blast
qed

theorem host_too_old_blocks_download_witness:
  "homeassistant (data (needs_host ''2024.1.0'' (released ''1.0.0'' ''2.0.0''))) = Some ''2024.1.0''
   \<and> releases (data (needs_host ''2024.1.0'' (released ''1.0.0'' ''2.0.0'')))
   \<and> version_left_higher_then_right ''2024.1.0'' (ha_version hacs_example)
   \<and> \<not> can_download hacs_example (needs_host ''2024.1.0'' (released ''1.0.0'' ''2.0.0''))
   \<and> \<not> pending_update hacs_example (needs_host ''2024.1.0'' (released ''1.0.0'' ''2.0.0''))
   \<and> fst (async_install_repository hacs_example external_example
        (state_of (needs_host ''2024.1.0'' (released ''1.0.0'' ''2.0.0'')) []))
      = Inl (HacsException
               ''The version of Home Assistant is not compatible with this version'')
   \<and> trace (snd (async_install_repository hacs_example external_example
        (state_of (needs_host ''2024.1.0'' (released ''1.0.0'' ''2.0.0'')) []))) = []"
proof -
  let ?r = "needs_host ''2024.1.0'' (released ''1.0.0'' ''2.0.0'')"
  let ?e = "Inl (HacsException
               ''The version of Home Assistant is not compatible with this version'')"
  have h1: "homeassistant (data ?r) = Some ''2024.1.0''"
    by (simp add: example_defs)
  have h2: "releases (data ?r)"
    by (simp add: example_defs)
  have h3: "version_left_higher_then_right ''2024.1.0'' (ha_version hacs_example)"
    by (simp add: hacs_example_def version_eval)
  note t = host_too_old_blocks_download [OF h1 h2 h3]
  have u: "update_repository external_example (state_of ?r []) = (Inr (), state_of ?r [])"
    by (simp add: external_example_def)
  have v: "repository (state_of ?r []) = ?r"
    by (simp add: state_of_def)
  have w: "content_path_local ?r = Some ''/config/www/community/widget''"
    by (simp add: example_defs)
  have tr: "trace (state_of ?r []) = []"
    by (simp add: state_of_def)
  from t have a: "\<not> can_download hacs_example ?r" and b: "\<not> pending_update hacs_example ?r"
    by blast+
  from t have "\<forall>x s0 s1 local.
           update_repository x s0 = (Inr (), s1) \<and> repository s1 = ?r
             \<and> content_path_local ?r = Some local
           \<longrightarrow> async_install_repository hacs_example x s0 = (?e, clear_errors s1)
               \<and> trace (snd (async_install_repository hacs_example x s0)) = trace s1
               \<and> fs (snd (async_install_repository hacs_example x s0)) = fs s1"
    by blast
  then have i: "async_install_repository hacs_example external_example (state_of ?r [])
                 = (?e, clear_errors (state_of ?r []))
               \<and> trace (snd (async_install_repository hacs_example external_example
                               (state_of ?r [])))
                   = trace (state_of ?r [])
               \<and> fs (snd (async_install_repository hacs_example external_example
                               (state_of ?r [])))
                   = fs (state_of ?r [])"
    using u v w by blast
  have i1: "fst (async_install_repository hacs_example external_example (state_of ?r [])) = ?e"
    by (simp only: conjunct1 [OF i] fst_conv)
  have i2: "trace (snd (async_install_repository hacs_example external_example
                          (state_of ?r []))) = []"
    by (simp only: conjunct1 [OF conjunct2 [OF i]] tr)
  from h1 h2 h3 a b i1 i2 show ?thesis by blast
qed

theorem host_version_ignored_counterexample:
  "homeassistant (data (needs_host ''2024.1.0'' (tracked ''abc123'' ''def456''))) = Some ''2024.1.0''
   \<and> version_left_higher_then_right ''2024.1.0'' (ha_version hacs_example)
   \<and> can_download hacs_example (needs_host ''2024.1.0'' (tracked ''abc123'' ''def456''))
   \<and> pending_update hacs_example (needs_host ''2024.1.0'' (tracked ''abc123'' ''def456''))
   \<and> fst (async_install_repository hacs_example external_example
        (state_of (needs_host ''2024.1.0'' (tracked ''abc123'' ''def456'')) [])) = Inr ()
   \<and> DownloadContent \<in> set (trace (snd (async_install_repository hacs_example external_example
        (state_of (needs_host ''2024.1.0'' (tracked ''abc123'' ''def456'')) []))))"
  by (simp add: status_eval example_defs version_eval install_defs)

section \<open>What the steps of an installation change\<close>

lemma emit_simps [simp]:
  "repository (emit e s) = repository s"
  "fs (emit e s) = fs s"
  "rules (emit e s) = rules s"
  "trace (emit e s) = trace s @ [e]"
  by (simp_all add: emit_def)

lemma append_error_simps [simp]:
  "data (repository (append_error m s)) = data (repository s)"
  "content_single (repository (append_error m s)) = content_single (repository s)"
  "content_path_local (repository (append_error m s)) = content_path_local (repository s)"
  "validate_errors (repository (append_error m s)) = validate_errors (repository s) @ [m]"
  "fs (append_error m s) = fs s"
  "trace (append_error m s) = trace s"
  by (simp_all add: append_error_def set_repository_def)

lemma fold_emit_simps [simp]:
  "repository (fold (\<lambda>e. emit (f e)) es s) = repository s"
  "fs (fold (\<lambda>e. emit (f e)) es s) = fs s"
  "trace (fold (\<lambda>e. emit (f e)) es s) = trace s @ map f es"
  by (induction es arbitrary: s) simp_all

lemma fold_append_error_simps [simp]:
  "data (repository (fold append_error ms s)) = data (repository s)"
  "content_single (repository (fold append_error ms s)) = content_single (repository s)"
  "content_path_local (repository (fold append_error ms s)) = content_path_local (repository s)"
  "validate_errors (repository (fold append_error ms s)) = validate_errors (repository s) @ ms"
  "fs (fold append_error ms s) = fs s"
  "trace (fold append_error ms s) = trace s"
  by (induction ms arbitrary: s) simp_all

lemma same_recordI:
  "repository s' = (repository s)\<lparr>validate_errors := es\<rparr> \<Longrightarrow> fs s' = fs s
     \<Longrightarrow> prefix (trace s) (trace s') \<Longrightarrow> same_record s s'"
  by (auto simp: same_record_def)

lemma same_record_fields:
  assumes "same_record s s'"
  shows "data (repository s') = data (repository s)"
    and "content_single (repository s') = content_single (repository s)"
    and "content_path_local (repository s') = content_path_local (repository s)"
    and "ref (repository s') = ref (repository s)"
    and "fs s' = fs s"
    and "\<exists>t. trace s' = trace s @ t"
  using assms by (auto simp: same_record_def prefix_def)

lemma same_record_refl [simp]: "same_record s s"
  by (rule same_recordI [where es = "validate_errors (repository s)"]) simp_all

lemma same_record_trans: "same_record s t \<Longrightarrow> same_record t u \<Longrightarrow> same_record s u"
  by (auto simp: same_record_def)

lemma same_record_emit [simp]: "same_record s (emit e s)"
  by (rule same_recordI [where es = "validate_errors (repository s)"]) simp_all

lemma same_record_append_error [simp]: "same_record s (append_error m s)"
  by (rule same_recordI [where es = "validate_errors (repository s) @ [m]"])
    (simp_all add: append_error_def set_repository_def)

lemma same_record_fold_append_error [simp]: "same_record s (fold append_error ms s)"
proof (induction ms arbitrary: s)
  case Nil
  show ?case by simp
next
  case (Cons m ms)
  show ?case
    using same_record_trans [OF same_record_append_error Cons.IH] by simp
qed

lemma same_record_emit_step [simp]: "same_record s t \<Longrightarrow> same_record s (emit e t)"
  using same_record_trans [OF _ same_record_emit] by blast

lemma same_record_append_step [simp]:
  "same_record s t \<Longrightarrow> same_record s (append_error m t)"
  using same_record_trans [OF _ same_record_append_error] by blast

lemma unpack_zip_file_same: "same_record s (unpack_zip_file x asset filecontent s)"
  by (simp add: unpack_zip_file_def split: option.splits)

lemma unpack_zip_file_step:
  "same_record s t \<Longrightarrow> same_record s (unpack_zip_file x asset filecontent t)"
  using same_record_trans [OF _ unpack_zip_file_same] by blast

lemma async_download_zip_file_same: "same_record s (async_download_zip_file x content s)"
  by (simp add: async_download_zip_file_def unpack_zip_file_step split: sum.splits option.splits)

lemma fold_download_same: "same_record s (fold (async_download_zip_file x) contents s)"
proof (induction contents arbitrary: s)
  case Nil
  show ?case by simp
next
  case (Cons c cs)
  show ?case
    using same_record_trans [OF async_download_zip_file_same Cons.IH] by simp
qed

lemma download_zip_files_same: "same_record s (download_zip_files x s)"
  by (simp add: download_zip_files_def fold_download_same split: sum.splits)

lemma download_phase_same: "same_record s (download_phase x version s)"
proof -
  have "same_record s (fold append_error (download_content x (repository s))
                         (emit DownloadContent s))"
    using same_record_trans [OF same_record_emit same_record_fold_append_error] .
  then show ?thesis
    by (simp add: download_phase_def download_zip_files_same)
qed

lemma set_ref_simps [simp]:
  "repository (set_ref version s) =
     (repository s)\<lparr>ref := Some (if Some version = default_branch (data (repository s))
                                   then version else ''tags/'' @ version)\<rparr>"
  "fs (set_ref version s) = fs s"
  "trace (set_ref version s) = trace s"
  by (simp_all add: set_ref_def set_repository_def)

lemma create_persistent_simps [simp]:
  "repository (snd (create_persistent local s)) = repository s"
  "fs (snd (create_persistent local s)) = fs s"
  "prefix (trace s) (trace (snd (create_persistent local s)))"
  by (simp_all add: create_persistent_def split: option.splits)

lemma create_backup_simps [simp]:
  "repository (create_backup local s) = repository s"
  "fs (create_backup local s) = fs s"
  "trace (create_backup local s) =
     trace s @ (if uses_backup (repository s) then [BackupCreate local] else [])"
  by (simp_all add: create_backup_def)

lemma restore_backup_simps [simp]:
  "repository (restore_backup local s) = repository s"
  "fs (restore_backup local s) = fs s"
  "trace (restore_backup local s) =
     trace s @ (if validate_errors (repository s) \<noteq> []
                then map LogError (validate_errors (repository s))
                     @ (if uses_backup (repository s) then [BackupRestore local] else [])
                else [])"
  by (simp_all add: restore_backup_def)

lemma cleanup_backup_simps [simp]:
  "repository (cleanup_backup local s) = repository s"
  "fs (cleanup_backup local s) = fs s"
  "trace (cleanup_backup local s) =
     trace s @ (if uses_backup (repository s) then [BackupCleanup local] else [])"
  by (simp_all add: cleanup_backup_def)

lemma restore_persistent_simps [simp]:
  "repository (restore_persistent p s) = repository s"
  "fs (restore_persistent p s) = fs s"
  "prefix (trace s) (trace (restore_persistent p s))"
  by (simp_all add: restore_persistent_def split: persistent.splits)

text \<open>
  The state \<^verbatim>\<open>async_install_repository\<close> is in after the download, and what the last
  statements make of it.
\<close>

lemma create_persistent_same: "same_record s (snd (create_persistent local s))"
  by (rule same_recordI [where es = "validate_errors (repository s)"]) simp_all

lemma create_backup_same: "same_record s (create_backup local s)"
  by (rule same_recordI [where es = "validate_errors (repository s)"]) simp_all

lemma downloaded_same:
  "same_record (set_ref version s)
     (download_phase x version
        (create_backup local (snd (create_persistent local (set_ref version s)))))"
  by (rule same_record_trans [OF create_persistent_same
        same_record_trans [OF create_backup_same download_phase_same]])

lemma install_version_eq:
  "install_version x local version s =
     mark_installed version
       (restore_persistent (fst (create_persistent local (set_ref version s)))
          (cleanup_backup local
             (restore_backup local
                (download_phase x version
                   (create_backup local
                      (snd (create_persistent local (set_ref version s))))))))"
  by (simp add: install_version_def download_and_restore_def split: prod.splits)

lemma install_version_errors:
  "validate_errors (repository (install_version x local version s)) =
   validate_errors (repository
     (download_phase x version
        (create_backup local (snd (create_persistent local (set_ref version s))))))"
  by (simp add: install_version_eq mark_installed_def set_data_def)








lemma install_version_succeeded:
  assumes "validate_errors (repository (install_version x local version s)) = []"
  shows "data (repository (install_version x local version s)) =
           (data (repository s))
             \<lparr>installed := True,
              installed_commit := last_commit (data (repository s)),
              installed_version :=
                (if Some version = default_branch (data (repository s))
                 then None else Some version)\<rparr>
     \<and> ref (repository (install_version x local version s)) =
           Some (if Some version = default_branch (data (repository s))
                 then version else ''tags/'' @ version)"
proof -
  let ?s5 = "download_phase x version
        (create_backup local (snd (create_persistent local (set_ref version s))))"
  have e: "validate_errors (repository ?s5) = []"
    using assms by (simp add: install_version_errors)
  have d: "data (repository ?s5) = data (repository s)"
    and r: "ref (repository ?s5) = Some (if Some version = default_branch (data (repository s))
                 then version else ''tags/'' @ version)"
    using same_record_fields(1,4) [OF downloaded_same, of x version local s] by simp_all
  show ?thesis
    using e d r
    by (simp add: install_version_eq mark_installed_def validate_success_def set_data_def)
qed

section \<open>Installation: errors and success\<close>




lemma install_view_same:
  "installed_part (data (repository s')) = installed_part (data (repository s))
     \<Longrightarrow> content_single (repository s') = content_single (repository s)
     \<Longrightarrow> content_path_local (repository s') = content_path_local (repository s)
     \<Longrightarrow> trace s' = trace s
     \<Longrightarrow> install_view s' = install_view s"
  by (simp add: install_view_def)













text \<open>
  Claim C4, with the resolved version as the spec gives it. Take an install
  (\<^verbatim>\<open>async_install\<close>) that returned with an empty error list, \<open>s1\<close> being the state the
  refresh left and \<open>version\<close> what \<^verbatim>\<open>version_to_download\<close> gave for it, which is the
  version the spec resolves. The record ends installed, with the last commit as installed
  commit, with the version as installed version unless it is the default branch, where the
  installed version is \<^verbatim>\<open>None\<close> and the ref is the default branch, and no longer new; the
  last thing the install does is fire the event of type \<^verbatim>\<open>hacs/repository\<close> with action
  \<^verbatim>\<open>install\<close>. For a repository with no releases that is not pinned, or is pinned to its
  default branch, the ref is the default branch and the installed version ends \<^verbatim>\<open>None\<close>.
  A repository with no releases that is pinned to another ref is installed at that ref (the
  counterexample).
\<close>

theorem successful_install_marks_installed:
  assumes "update_repository x s0 = (Inr (), s1)"
      and "async_install h x s0 = (Inr (), s')"
      and "validate_errors (repository s') = []"
      and "resolved_version (repository s1) = Some version"
      and "version_to_download x (repository (clear_errors s1)) = version"
  shows "installed (data (repository s'))
     \<and> installed_commit (data (repository s')) = last_commit (data (repository s1))
     \<and> \<not> new (data (repository s'))
     \<and> last (trace s')
         = BusFire ''hacs/repository'' ''install'' (full_name (data (repository s1)))
     \<and> (Some version \<noteq> default_branch (data (repository s1))
          \<longrightarrow> installed_version (data (repository s')) = Some version
              \<and> ref (repository s') = Some (''tags/'' @ version))
     \<and> (Some version = default_branch (data (repository s1))
          \<longrightarrow> installed_version (data (repository s')) = None
              \<and> ref (repository s') = default_branch (data (repository s1)))
     \<and> (\<not> releases (data (repository s1))
          \<and> (selected_tag (data (repository s1)) = None
               \<or> selected_tag (data (repository s1)) = default_branch (data (repository s1)))
          \<longrightarrow> installed_version (data (repository s')) = None
              \<and> ref (repository s') = default_branch (data (repository s1)))"
proof -
  from assms(2) obtain s2 where
    i: "async_install_repository h x s0 = (Inr (), s2)"
    and p: "async_post_install x s2 = (Inr (), s')"
    by (auto simp: async_install_def split: option.splits sum.splits prod.splits)
  from p have s': "s' = emit (BusFire ''hacs/repository'' ''install''
                            (full_name (data (repository s2))))
                      (set_data (\<lambda>d. d\<lparr>new := False\<rparr>) s2)"
    by (auto simp: async_post_install_def split: option.splits)
  from assms(1) i obtain local where
    s2: "s2 = install_version x local version (clear_errors s1)"
    using assms(5)
    by (auto simp: async_install_repository_def split: option.splits if_splits)
  have e: "validate_errors (repository s2) = []"
    using assms(3) by (simp add: s' set_data_def)
  have cl: "data (repository (clear_errors s1)) = data (repository s1)"
    by (simp add: clear_errors_def set_repository_def)
  note r = install_version_succeeded [of x local version "clear_errors s1"]
  from r e s2 cl have
    d: "data (repository s2) =
           (data (repository s1))
             \<lparr>installed := True,
              installed_commit := last_commit (data (repository s1)),
              installed_version :=
                (if Some version = default_branch (data (repository s1))
                 then None else Some version)\<rparr>"
    and f: "ref (repository s2) =
           Some (if Some version = default_branch (data (repository s1))
                 then version else ''tags/'' @ version)"
    by simp_all
  have b: "Some version = default_branch (data (repository s1))"
    if "\<not> releases (data (repository s1))"
      "selected_tag (data (repository s1)) = None
         \<or> selected_tag (data (repository s1)) = default_branch (data (repository s1))"
    using that assms(4) by (auto simp: resolved_version_def split: option.splits)
  have main: "installed (data (repository s'))
     \<and> installed_commit (data (repository s')) = last_commit (data (repository s1))
     \<and> \<not> new (data (repository s'))
     \<and> last (trace s')
         = BusFire ''hacs/repository'' ''install'' (full_name (data (repository s1)))
     \<and> (Some version \<noteq> default_branch (data (repository s1))
          \<longrightarrow> installed_version (data (repository s')) = Some version
              \<and> ref (repository s') = Some (''tags/'' @ version))
     \<and> (Some version = default_branch (data (repository s1))
          \<longrightarrow> installed_version (data (repository s')) = None
              \<and> ref (repository s') = default_branch (data (repository s1)))"
    by (auto simp: s' set_data_def d f)
  with b show ?thesis by blast
qed

theorem successful_install_marks_installed_witness:
  "update_repository external_resolving (state_of discovered []) = (Inr (), state_of discovered [])
   \<and> \<not> releases (data discovered) \<and> \<not> installed (data discovered)
   \<and> selected_tag (data discovered) = None
   \<and> resolved_version discovered = Some ''main''
   \<and> version_to_download external_resolving (repository (clear_errors (state_of discovered [])))
       = ''main''
   \<and> fst (async_install hacs_example external_resolving (state_of discovered [])) = Inr ()
   \<and> validate_errors (repository (snd (async_install hacs_example external_resolving
        (state_of discovered [])))) = []
   \<and> installed (data (repository (snd (async_install hacs_example external_resolving
        (state_of discovered [])))))
   \<and> installed_commit (data (repository (snd (async_install hacs_example external_resolving
        (state_of discovered []))))) = Some ''def456''
   \<and> installed_version (data (repository (snd (async_install hacs_example external_resolving
        (state_of discovered []))))) = None
   \<and> ref (repository (snd (async_install hacs_example external_resolving
        (state_of discovered [])))) = Some ''main''
   \<and> \<not> new (data (repository (snd (async_install hacs_example external_resolving
        (state_of discovered [])))))
   \<and> last (trace (snd (async_install hacs_example external_resolving (state_of discovered []))))
       = BusFire ''hacs/repository'' ''install'' ''acme/widget''"
proof -
  let ?s0 = "state_of discovered []"
  let ?run = "async_install hacs_example external_resolving ?s0"
  have u: "update_repository external_resolving ?s0 = (Inr (), ?s0)"
    by (simp add: example_defs)
  have w: "resolved_version (repository ?s0) = Some ''main''"
    by (simp add: example_defs resolved_version_def)
  have w': "resolved_version discovered = Some ''main''"
    by (simp add: example_defs resolved_version_def)
  have v: "version_to_download external_resolving (repository (clear_errors ?s0)) = ''main''"
    by (simp add: example_defs clear_errors_def set_repository_def py_str_opt_def
        resolved_version_def)
  have f: "fst ?run = Inr ()"
    by (simp add: example_defs status_eval install_defs async_install_def
        async_post_install_def resolved_version_def)
  have e: "validate_errors (repository (snd ?run)) = []"
    by (simp add: example_defs status_eval install_defs async_install_def
        async_post_install_def resolved_version_def)
  have r: "?run = (Inr (), snd ?run)"
    using f by (simp add: prod_eq_iff)
  have s: "default_branch (data (repository ?s0)) = Some ''main''"
    "last_commit (data (repository ?s0)) = Some ''def456''"
    "full_name (data (repository ?s0)) = ''acme/widget''"
    "\<not> releases (data (repository ?s0))"
    "selected_tag (data (repository ?s0)) = None"
    by (simp_all add: example_defs)
  have s': "\<not> releases (data discovered)" "\<not> installed (data discovered)"
    "selected_tag (data discovered) = None"
    by (simp_all add: example_defs)
  from successful_install_marks_installed [OF u r e w v] s
  have "installed (data (repository (snd ?run)))
     \<and> installed_commit (data (repository (snd ?run))) = Some ''def456''
     \<and> installed_version (data (repository (snd ?run))) = None
     \<and> ref (repository (snd ?run)) = Some ''main''
     \<and> \<not> new (data (repository (snd ?run)))
     \<and> last (trace (snd ?run)) = BusFire ''hacs/repository'' ''install'' ''acme/widget''"
    by simp
  with u v w' f e s' show ?thesis by blast
qed

theorem pinned_ref_installed_counterexample:
  "\<not> releases (data pinned)
   \<and> selected_tag (data pinned) = Some ''dev''
   \<and> default_branch (data pinned) = Some ''main''
   \<and> resolved_version pinned = Some ''dev''
   \<and> version_to_download external_resolving pinned = ''dev''
   \<and> fst (async_install hacs_example external_resolving (state_of pinned [])) = Inr ()
   \<and> validate_errors (repository (snd (async_install hacs_example external_resolving
        (state_of pinned [])))) = []
   \<and> ref (repository (snd (async_install hacs_example external_resolving
        (state_of pinned [])))) = Some ''tags/dev''
   \<and> installed_version (data (repository (snd (async_install hacs_example external_resolving
        (state_of pinned []))))) = Some ''dev''"
  by (simp add: example_defs status_eval install_defs async_install_def
      async_post_install_def resolved_version_def)

section \<open>Metadata refresh when nothing changed\<close>

text \<open>
  Claim C6. \<^verbatim>\<open>common_update\<close> is called with \<^verbatim>\<open>force = False\<close> on a repository that is
  not installed, and the remote answers the fetch under the repository's caching token with
  "not modified". Then the call returns \<^verbatim>\<open>False\<close> and leaves the state as it was, every
  attribute of the record included; and so does a second call. More generally, whenever the
  fetch of the attributes returns with the etag it found and the repository not installed,
  \<^verbatim>\<open>common_update\<close> returns \<^verbatim>\<open>False\<close> with the state the fetch left: the last update,
  the last commit, the manifest and the info are not touched.
\<close>

theorem common_update_not_modified:
  assumes "\<not> installed (data (repository s))"
      and "get_repository x (full_name (data (repository s)))
             (etag_repository (data (repository s))) = Inl HacsNotModifiedException"
  shows "common_update h x ignore_issues False s = (Inr False, s)
     \<and> common_update h x ignore_issues False (snd (common_update h x ignore_issues False s))
         = (Inr False, s)
     \<and> (\<forall>t t1. common_update_data x ignore_issues False t = (Inr (), t1)
            \<and> \<not> installed (data (repository t1))
            \<and> etag_repository (data (repository t1)) = etag_repository (data (repository t))
          \<longrightarrow> common_update h x ignore_issues False t = (Inr False, t1))"
proof -
  have f: "common_update_data x ignore_issues False s = (Inr (), s)"
    using assms by (simp add: common_update_data_def caching_token_def)
  have c: "common_update h x ignore_issues False s = (Inr False, s)"
    using assms(1) by (simp add: common_update_def update_data_renamed_def f)
  have g: "common_update h x ignore_issues False t = (Inr False, t1)"
    if "common_update_data x ignore_issues False t = (Inr (), t1)"
      "\<not> installed (data (repository t1))"
      "etag_repository (data (repository t1)) = etag_repository (data (repository t))"
    for t t1
    using that by (simp add: common_update_def update_data_renamed_def)
  from c g show ?thesis by simp
qed

theorem common_update_not_modified_witness:
  "\<not> installed (data (repository (state_of known [])))
   \<and> etag_repository (data (repository (state_of known []))) = Some ''etag-1''
   \<and> get_repository external_example ''acme/widget'' (Some ''etag-1'')
       = Inl HacsNotModifiedException
   \<and> common_update hacs_example external_example False False (state_of known [])
       = (Inr False, state_of known [])
   \<and> common_update hacs_example external_example False False
        (snd (common_update hacs_example external_example False False (state_of known [])))
       = (Inr False, state_of known [])
   \<and> common_update_data external_example False False (state_of known [])
       = (Inr (), state_of known [])"
proof -
  let ?s = "state_of known []"
  have n: "\<not> installed (data (repository ?s))"
    by (simp add: example_defs)
  have e: "etag_repository (data (repository ?s)) = Some ''etag-1''"
    by (simp add: example_defs)
  have a: "get_repository external_example ''acme/widget'' (Some ''etag-1'')
             = Inl HacsNotModifiedException"
    by (simp add: external_example_def)
  have r: "get_repository external_example (full_name (data (repository ?s)))
             (etag_repository (data (repository ?s))) = Inl HacsNotModifiedException"
    by (simp add: example_defs)
  have d: "common_update_data external_example False False ?s = (Inr (), ?s)"
    using n r by (simp add: common_update_data_def caching_token_def)
  note t = common_update_not_modified [OF n r, of hacs_example False]
  from n e a d conjunct1 [OF t] conjunct1 [OF conjunct2 [OF t]] show ?thesis
    by (simp only: simp_thms)
qed

section \<open>The manifest file\<close>

text \<open>
  Claim C7, as the code has it. When the tree has no \<^verbatim>\<open>hacs.json\<close>, the method raises
  exactly in automated mode (\<^verbatim>\<open>hacs.system.action\<close>) and changes nothing. When the file is
  there and an exception is raised while it is fetched, parsed, turned into a manifest
  object or written into the data, the method raises the "not valid" error exactly in
  automated mode and returns normally otherwise: outside automated mode a malformed
  manifest is not an error (the counterexample). When the exception comes from the fetch,
  from \<^verbatim>\<open>json.loads\<close> or from \<^verbatim>\<open>HacsManifest.from_dict\<close>, only \<^verbatim>\<open>self.ref\<close> has been
  assigned: the data and the manifest object are unchanged.
\<close>

theorem manifest_errors_by_mode:
  "(''hacs.json'' \<notin> set (tree (repository s))
      \<longrightarrow> get_repository_manifest_content h x s
            = (if system_action h then Inl missing_manifest else Inr (), s))
   \<and> (''hacs.json'' \<in> set (tree (repository s))
        \<and> fst (load_manifest x (resolve_ref x s)) = Some e
      \<longrightarrow> fst (get_repository_manifest_content h x s)
            = (if system_action h then Inl (invalid_manifest x e) else Inr ()))
   \<and> (''hacs.json'' \<in> set (tree (repository s))
        \<and> fetch_manifest x (repository (resolve_ref x s)) = Inl e
      \<longrightarrow> get_repository_manifest_content h x s
            = (if system_action h then Inl (invalid_manifest x e) else Inr (), resolve_ref x s)
          \<and> data (repository (snd (get_repository_manifest_content h x s)))
              = data (repository s)
          \<and> repository_manifest (repository (snd (get_repository_manifest_content h x s)))
              = repository_manifest (repository s))"
  by (auto simp: get_repository_manifest_content_def load_manifest_def resolve_ref_def
      set_repository_def split: prod.splits option.splits)

theorem manifest_errors_by_mode_witness:
  "''hacs.json'' \<notin> set (tree (repository (state_of discovered [])))
   \<and> system_action hacs_action \<and> \<not> system_action hacs_example
   \<and> fst (get_repository_manifest_content hacs_action external_example (state_of discovered []))
       = Inl missing_manifest
   \<and> fst (get_repository_manifest_content hacs_example external_example
            (state_of discovered [])) = Inr ()
   \<and> ''hacs.json'' \<in> set (tree (repository (state_of (with_manifest_file discovered) [])))
   \<and> fetch_manifest external_bad_json
        (repository (resolve_ref external_bad_json (state_of (with_manifest_file discovered) [])))
       = Inl (OtherException ''Expecting value'')
   \<and> fst (get_repository_manifest_content hacs_action external_bad_json
            (state_of (with_manifest_file discovered) []))
       = Inl (HacsException ''::error:: hacs.json file is not valid (Expecting value).'')
   \<and> data (repository (snd (get_repository_manifest_content hacs_action external_bad_json
            (state_of (with_manifest_file discovered) [])))) = data discovered"
proof -
  let ?s = "state_of discovered []"
  let ?t = "state_of (with_manifest_file discovered) []"
  let ?e = "OtherException ''Expecting value''"
  have a: "''hacs.json'' \<notin> set (tree (repository ?s))"
    by (simp add: example_defs)
  have m: "system_action hacs_action" "\<not> system_action hacs_example"
    by (simp_all add: example_defs)
  have b: "''hacs.json'' \<in> set (tree (repository ?t))"
    by (simp add: example_defs)
  have f: "fetch_manifest external_bad_json (repository (resolve_ref external_bad_json ?t))
       = Inl ?e"
    by (simp add: example_defs fetch_manifest_def resolve_ref_def set_repository_def)
  have i: "invalid_manifest external_bad_json ?e
       = HacsException ''::error:: hacs.json file is not valid (Expecting value).''"
    by (simp add: invalid_manifest_def external_bad_json_def)
  have d: "data (repository ?t) = data discovered"
    by (simp add: example_defs)
  note t1 = manifest_errors_by_mode
    [where s = ?s and h = hacs_action and x = external_example and e = ?e]
  note t2 = manifest_errors_by_mode
    [where s = ?s and h = hacs_example and x = external_example and e = ?e]
  note t3 = manifest_errors_by_mode
    [where s = ?t and h = hacs_action and x = external_bad_json and e = ?e]
  from t1 a m have c1: "fst (get_repository_manifest_content hacs_action external_example ?s)
       = Inl missing_manifest" by simp
  from t2 a m have c2: "fst (get_repository_manifest_content hacs_example external_example ?s)
       = Inr ()" by simp
  note k = conjunct2 [OF conjunct2 [OF t3], THEN mp, OF conjI [OF b f]]
  have c3: "fst (get_repository_manifest_content hacs_action external_bad_json ?t)
       = Inl (HacsException ''::error:: hacs.json file is not valid (Expecting value).'')"
    using conjunct1 [OF k] m i by simp
  have c4: "data (repository (snd (get_repository_manifest_content hacs_action
           external_bad_json ?t))) = data discovered"
    using conjunct1 [OF conjunct2 [OF k]] d by simp
  from a m b f c1 c2 c3 c4 show ?thesis by blast
qed

theorem malformed_manifest_tolerated_counterexample:
  "''hacs.json'' \<in> set (tree (repository (state_of (with_manifest_file discovered) [])))
   \<and> json_loads external_bad_json ''{}'' = Inl (OtherException ''Expecting value'')
   \<and> \<not> system_action hacs_example
   \<and> fst (get_repository_manifest_content hacs_example external_bad_json
            (state_of (with_manifest_file discovered) [])) = Inr ()"
  by (simp add: example_defs get_repository_manifest_content_def load_manifest_def
      fetch_manifest_def resolve_ref_def set_repository_def)

section \<open>The validation checks\<close>

lemma load_rules_simps [simp]:
  "repository (load_rules x s) = repository s"
  "trace (load_rules x s) = trace s"
  "fs (load_rules x s) = fs s"
  by (simp_all add: load_rules_def)

lemma run_checks_simps [simp]:
  "repository (run_checks s) = repository s"
  "trace (run_checks s) = trace s @ map RunCheck (checks_of s)"
  by (simp_all add: run_checks_def)

text \<open>
  Claim C9, as the code has it. \<^verbatim>\<open>async_run_repository_checks\<close> returns at once, running
  nothing, while \<^verbatim>\<open>hacs.system.running\<close> is false (the counterexample). When the system is
  running, it runs exactly the checks registered under \<^verbatim>\<open>common\<close> followed by those
  registered under the category of the repository (the registry being loaded first when it
  is empty); then, when at least one check failed, it ends the process with
  \<^verbatim>\<open>SystemExit\<close> and the message counting the failed checks in automated mode
  (\<^verbatim>\<open>hacs.action\<close>), and only logs the same count otherwise; with no failed check it logs no
  error. The repository is not changed.
\<close>

theorem checks_run_when_running:
  assumes "system_running h"
  shows "trace (snd (async_run_repository_checks h x s))
           = trace s
             @ map RunCheck
                 (rules_get (rules (load_rules x s)) ''common''
                  @ rules_get (rules (load_rules x s)) (category (data (repository s))))
             @ (if failed x (load_rules x s) \<noteq> 0 \<and> \<not> action h
                then [LogError (checks_failed x (load_rules x s))] else [])
     \<and> fst (async_run_repository_checks h x s)
           = (if failed x (load_rules x s) \<noteq> 0 \<and> action h
              then Inl (SystemExit (''::error::'' @ checks_failed x (load_rules x s)))
              else Inr ())
     \<and> repository (snd (async_run_repository_checks h x s)) = repository s"
  using assms by (simp add: async_run_repository_checks_def checks_of_def)

theorem checks_run_when_running_witness:
  "system_running hacs_example \<and> \<not> action hacs_example
   \<and> system_running hacs_action \<and> action hacs_action
   \<and> failed external_example (load_rules external_example (state_of discovered [])) = 1
   \<and> trace (snd (async_run_repository_checks hacs_example external_example
        (state_of discovered [])))
       = [RunCheck ''c1'', RunCheck ''p1'', LogError ''1/2 checks failed'']
   \<and> fst (async_run_repository_checks hacs_example external_example (state_of discovered []))
       = Inr ()
   \<and> trace (snd (async_run_repository_checks hacs_action external_example
        (state_of discovered [])))
       = [RunCheck ''c1'', RunCheck ''p1'']
   \<and> fst (async_run_repository_checks hacs_action external_example (state_of discovered []))
       = Inl (SystemExit ''::error::1/2 checks failed'')"
proof -
  let ?s = "state_of discovered []"
  have r: "system_running hacs_example" "\<not> action hacs_example"
    "system_running hacs_action" "action hacs_action"
    by (simp_all add: example_defs)
  have l: "rules (load_rules external_example ?s) = [(''common'', [''c1'']), (''plugin'', [''p1''])]"
    by (simp add: load_rules_def example_defs)
  have c: "checks_of (load_rules external_example ?s) = [''c1'', ''p1'']"
    by (simp add: checks_of_def l rules_get_def) (simp add: example_defs)
  have f: "failed external_example (load_rules external_example ?s) = 1"
    by (simp add: failed_def c) (simp add: example_defs)
  have m: "checks_failed external_example (load_rules external_example ?s) = ''1/2 checks failed''"
    by (simp add: checks_failed_def f c str_of_nat.simps digit_of_def)
  have g: "rules_get (rules (load_rules external_example ?s)) ''common''
           @ rules_get (rules (load_rules external_example ?s)) (category (data (repository ?s)))
         = [''c1'', ''p1'']"
    using c by (simp add: checks_of_def)
  have t: "trace ?s = []" by (simp add: state_of_def)
  from checks_run_when_running [OF r(1), of external_example ?s]
    checks_run_when_running [OF r(3), of external_example ?s] r f
  show ?thesis by (simp add: m g t)
qed

theorem checks_skipped_counterexample:
  "\<not> system_running hacs_not_running \<and> action hacs_not_running
   \<and> failed external_example (load_rules external_example (state_of discovered [])) = 1
   \<and> async_run_repository_checks hacs_not_running external_example (state_of discovered [])
       = (Inr (), state_of discovered [])
   \<and> trace (state_of discovered []) = []"
proof -
  let ?s = "state_of discovered []"
  have l: "rules (load_rules external_example ?s) = [(''common'', [''c1'']), (''plugin'', [''p1''])]"
    by (simp add: load_rules_def example_defs)
  have c: "checks_of (load_rules external_example ?s) = [''c1'', ''p1'']"
    by (simp add: checks_of_def l rules_get_def) (simp add: example_defs)
  have f: "failed external_example (load_rules external_example ?s) = 1"
    by (simp add: failed_def c) (simp add: example_defs)
  have n: "\<not> system_running hacs_not_running" "action hacs_not_running"
    by (simp_all add: example_defs)
  have "async_run_repository_checks hacs_not_running external_example ?s = (Inr (), ?s)"
    using n by (simp add: async_run_repository_checks_def)
  moreover have "trace ?s = []" by (simp add: state_of_def)
  ultimately show ?thesis using n f by blast
qed

section \<open>Uninstall\<close>

lemma wait_removed_gone: "p \<notin> set paths \<Longrightarrow> wait_removed paths p = Some ()"
  by (subst wait_removed.simps) simp

lemma remove_path_simps [simp]:
  "repository (remove_path p s) = repository s"
  "p \<notin> set (fs (remove_path p s))"
  "set (fs (remove_path p s)) \<subseteq> set (fs s)"
  "trace (remove_path p s) =
     trace s @ [if category (data (repository s)) = ''python_script''
                then OsRemove p else Rmtree p]"
  by (auto simp: remove_path_def os_remove_def rmtree_def emit_def)

lemma os_remove_simps [simp]:
  "repository (os_remove p s) = repository s"
  "fs (os_remove p s) = removeAll p (fs s)"
  "trace (os_remove p s) = trace s @ [OsRemove p]"
  by (simp_all add: os_remove_def emit_def)

text \<open>The wait of \<^verbatim>\<open>remove_local_directory\<close> always ends in the model: the path is gone.\<close>

lemma remove_target_eq:
  "remove_target x target s =
     Some (case target of
             None \<Rightarrow> (Inr False, s)
           | Some p \<Rightarrow>
               (if p \<in> set (fs s) then
                  (if \<not> is_safe x p
                   then (Inr False, emit (LogError ''%s Path %s is blocked from removal'') s)
                   else if os_raises x p then (Inr False, s)
                   else (Inr True, remove_path p s))
                else (Inr True, s)))"
  by (simp add: remove_target_def wait_removed_gone split: option.splits)

lemma remove_path_subset: "q \<in> set (fs (remove_path p s)) \<Longrightarrow> q \<in> set (fs s)"
  using remove_path_simps(3) by blast

lemma remove_target_result:
  assumes "remove_target x (local_target (repository s0)) s = Some (res, s1)"
      and "repository s = repository s0"
  shows "repository s1 = repository s
     \<and> set (fs s1) \<subseteq> set (fs s)
     \<and> (\<exists>t. trace s1 = trace s @ t \<and> (\<forall>e \<in> set t. allowed_removal h x s0 e))
     \<and> (res = Inr True
          \<longrightarrow> (\<exists>p. local_target (repository s0) = Some p \<and> p \<notin> set (fs s1)))
     \<and> (\<forall>e. res \<noteq> Inl e)
     \<and> (\<forall>p. local_target (repository s0) = Some p \<and> p \<in> set (fs s) \<and> \<not> is_safe x p
          \<longrightarrow> res = Inr False \<and> fs s1 = fs s)"
  using assms
  by (auto simp: remove_target_eq allowed_removal_def dest: remove_path_subset
      split: option.splits if_splits)

lemma allowed_removal_theme [simp]:
  "category (data (repository s)) = ''theme''
     \<Longrightarrow> allowed_removal h x s (OsRemove (theme_yaml h (repository s)))"
  by (simp add: allowed_removal_def)

lemma remove_local_directory_total:
  "\<exists>res s1. remove_local_directory h x s = Some (res, s1)"
  by (simp add: remove_local_directory_def remove_target_eq)

lemma remove_local_directory_result:
  assumes "remove_local_directory h x s = Some (res, s1)"
  shows "repository s1 = repository s
     \<and> (\<exists>t. trace s1 = trace s @ t \<and> (\<forall>e \<in> set t. allowed_removal h x s e))
     \<and> (res = Inr True
          \<longrightarrow> (\<exists>p. local_target (repository s) = Some p \<and> p \<notin> set (fs s1)))
     \<and> (category (data (repository s)) \<noteq> ''theme'' \<longrightarrow> (\<forall>e. res \<noteq> Inl e))
     \<and> (category (data (repository s)) \<noteq> ''theme''
          \<longrightarrow> (\<forall>p. local_target (repository s) = Some p \<and> p \<in> set (fs s) \<and> \<not> is_safe x p
                \<longrightarrow> res = Inr False \<and> fs s1 = fs s))"
proof (cases "category (data (repository s)) = ''theme''")
  case False
  show ?thesis
  proof (cases "category (data (repository s)) = ''integration''
      \<and> domain (data (repository s)) = []")
    case True
    with assms show ?thesis
      by (auto simp: remove_local_directory_def allowed_removal_def)
  next
    case no_domain: False
    with False assms have
      "remove_target x (local_target (repository s)) s = Some (res, s1)"
      by (auto simp: remove_local_directory_def split: if_splits)
    from remove_target_result [OF this refl, of h] False show ?thesis
      by simp
  qed
next
  case True
  let ?y = "theme_yaml h (repository s)"
  show ?thesis
  proof (cases "?y \<in> set (fs s)")
    case absent: False
    with True assms have
      "remove_target x (local_target (repository s)) s = Some (res, s1)"
      by (simp add: remove_local_directory_def)
    from remove_target_result [OF this refl, of h] True show ?thesis
      by simp
  next
    case present: True
    show ?thesis
    proof (cases "os_raises x ?y")
      case True
      with present \<open>category (data (repository s)) = ''theme''\<close> assms
      have "res = Inl UnboundLocalError" "s1 = s"
        by (simp_all add: remove_local_directory_def)
      with \<open>category (data (repository s)) = ''theme''\<close> show ?thesis
        by simp
    next
      case False
      with present \<open>category (data (repository s)) = ''theme''\<close> assms have
        r: "remove_target x (local_target (repository s)) (os_remove ?y s) = Some (res, s1)"
        by (simp add: remove_local_directory_def)
      have "repository (os_remove ?y s) = repository s" by simp
      from remove_target_result [OF r this, of h]
      obtain t where
        a: "repository s1 = repository s"
        and b: "trace s1 = trace s @ OsRemove ?y # t"
        and c: "\<forall>e \<in> set t. allowed_removal h x s e"
        and d: "res = Inr True
            \<longrightarrow> (\<exists>p. local_target (repository s) = Some p \<and> p \<notin> set (fs s1))"
        by auto
      from c \<open>category (data (repository s)) = ''theme''\<close>
      have "\<forall>e \<in> set (OsRemove ?y # t). allowed_removal h x s e"
        by simp
      with a b d \<open>category (data (repository s)) = ''theme''\<close> show ?thesis
        by blast
    qed
  qed
qed

lemma remove_store_and_fire_result:
  assumes "remove_store_and_fire x s = (res, s')"
  shows "fs s' = fs s
     \<and> installed (data (repository s')) = installed (data (repository s))
     \<and> (\<exists>t. trace s' = trace s @ t \<and> (\<forall>q. Rmtree q \<notin> set t \<and> OsRemove q \<notin> set t)
           \<and> (res = Inr () \<longrightarrow> RemoveStore (store_key s) \<in> set t))
     \<and> (res = Inr ()
          \<longrightarrow> installed_version (data (repository s')) = None
              \<and> installed_commit (data (repository s')) = None
              \<and> last (trace s')
                  = BusFire ''hacs/repository'' ''uninstall'' (full_name (data (repository s))))"
  using assms
  by (auto simp: remove_store_and_fire_def set_data_def split: option.splits)

lemma uninstall_finish_result:
  assumes "uninstall_finish x s = (res, s')"
  shows "fs s' = fs s
     \<and> installed (data (repository s')) = installed (data (repository s))
     \<and> (\<exists>t. trace s' = trace s @ t \<and> (\<forall>q. Rmtree q \<notin> set t \<and> OsRemove q \<notin> set t)
           \<and> (res = Inr () \<longrightarrow> RemoveStore (store_key s) \<in> set t))
     \<and> (res = Inr ()
          \<longrightarrow> installed_version (data (repository s')) = None
              \<and> installed_commit (data (repository s')) = None
              \<and> last (trace s')
                  = BusFire ''hacs/repository'' ''uninstall'' (full_name (data (repository s))))"
proof -
  have k: "store_key (emit e s) = store_key s"
    "store_key (set_repository (\<lambda>r. r\<lparr>pending_restart := True\<rparr>) s) = store_key s" for e
    by (simp_all add: store_key_def set_repository_def)
  have r: "fs (set_repository f s) = fs s" "trace (set_repository f s) = trace s"
    "data (repository (set_repository (\<lambda>r. r\<lparr>pending_restart := True\<rparr>) s))
       = data (repository s)" for f
    by (simp_all add: set_repository_def)
  consider
    (reload_fails) e where "res = Inl e" "s' = s"
    | (reload) "remove_store_and_fire x (emit ReloadCustomComponents s) = (res, s')"
    | (restart) "remove_store_and_fire x
         (set_repository (\<lambda>r. r\<lparr>pending_restart := True\<rparr>) s) = (res, s')"
    | (themes) "remove_store_and_fire x
         (emit (ServiceCall ''frontend'' ''reload_themes'') s) = (res, s')"
    | (plain) "remove_store_and_fire x s = (res, s')"
    using assms by (auto simp: uninstall_finish_def split: if_splits option.splits)
  then show ?thesis
  proof cases
    case reload_fails
    then show ?thesis by simp
  next
    case reload
    from remove_store_and_fire_result [OF this] show ?thesis
      by (auto simp: k)
  next
    case restart
    from remove_store_and_fire_result [OF this] show ?thesis
      by (auto simp: k r)
  next
    case themes
    from remove_store_and_fire_result [OF this] show ?thesis
      by (auto simp: k)
  next
    case plain
    from remove_store_and_fire_result [OF this] show ?thesis
      by simp
  qed
qed

lemma uninstall_cases:
  assumes "uninstall h x s = Some (res, s')"
  obtains
    (failed) r1 where "remove_local_directory h x s = Some (r1, s')" "r1 \<noteq> Inr True"
      "res = (case r1 of Inl e \<Rightarrow> Inl e | Inr b \<Rightarrow> Inl (HacsException ''Could not uninstall''))"
  | (removed) s1 where "remove_local_directory h x s = Some (Inr True, s1)"
      "uninstall_finish x (set_data (\<lambda>d. d\<lparr>installed := False\<rparr>) s1) = (res, s')"
  using assms
  by (auto simp: uninstall_def split: option.splits sum.splits bool.splits prod.splits)

lemma uninstall_effects:
  assumes "uninstall h x s = Some (res, s')"
  shows "\<forall>e \<in> set (drop (length (trace s)) (trace s')). allowed_removal h x s e"
  using assms
proof (cases rule: uninstall_cases)
  case (failed r1)
  from remove_local_directory_result [OF failed(1)] show ?thesis by auto
next
  case (removed s1)
  from remove_local_directory_result [OF removed(1)] obtain t1 where
    t1: "trace s1 = trace s @ t1" "\<forall>e \<in> set t1. allowed_removal h x s e"
    by auto
  from uninstall_finish_result [OF removed(2)] obtain t2 where
    t2: "trace s' = trace (set_data (\<lambda>d. d\<lparr>installed := False\<rparr>) s1) @ t2"
      "\<forall>q. Rmtree q \<notin> set t2 \<and> OsRemove q \<notin> set t2"
    by auto
  have "\<forall>e \<in> set t2. allowed_removal h x s e"
    using t2(2) by (auto simp: allowed_removal_def split: effect.splits)
  with t1 t2(1) show ?thesis
    by (auto simp: set_data_def)
qed

text \<open>
  Claim C8, as the code has it. \<^verbatim>\<open>uninstall\<close> always returns or raises (the wait for the
  removal ends). Whatever it does, a directory is removed only for a category other than
  \<^verbatim>\<open>python_script\<close>, a single file only for \<^verbatim>\<open>python_script\<close>, and both only at the target
  path after \<^verbatim>\<open>is_safe\<close> accepted it; the one exception is the file of a theme under the
  theme path, which is removed first with no check (the counterexample: it is gone although
  the check of the target fails). For every other category, a target that exists and fails
  the check makes \<^verbatim>\<open>uninstall\<close> raise "Could not uninstall" with the repository, its
  \<^verbatim>\<open>installed\<close> flag included, and the file system unchanged. When \<^verbatim>\<open>uninstall\<close> returns,
  the target is gone, \<^verbatim>\<open>installed\<close> is false, the installed version and commit are
  \<^verbatim>\<open>None\<close>, the store file of the repository was removed, and the last thing done was to
  fire the event of type \<^verbatim>\<open>hacs/repository\<close> with action \<^verbatim>\<open>uninstall\<close>.
\<close>

theorem uninstall_removes_after_check:
  "(\<exists>res s'. uninstall h x s = Some (res, s'))
   \<and> (uninstall h x s = Some (res, s')
        \<longrightarrow> (\<forall>q. Rmtree q \<in> set (drop (length (trace s)) (trace s'))
                \<longrightarrow> category (data (repository s)) \<noteq> ''python_script''
                    \<and> local_target (repository s) = Some q \<and> is_safe x q)
          \<and> (\<forall>q. OsRemove q \<in> set (drop (length (trace s)) (trace s'))
                \<longrightarrow> (category (data (repository s)) = ''python_script''
                     \<and> local_target (repository s) = Some q \<and> is_safe x q)
                    \<or> (category (data (repository s)) = ''theme''
                       \<and> q = theme_yaml h (repository s))))
   \<and> (uninstall h x s = Some (res, s')
        \<and> category (data (repository s)) \<noteq> ''theme''
        \<and> local_target (repository s) = Some p \<and> p \<in> set (fs s) \<and> \<not> is_safe x p
        \<longrightarrow> res = Inl (HacsException ''Could not uninstall'')
            \<and> repository s' = repository s \<and> fs s' = fs s)
   \<and> (uninstall h x s = Some (Inr (), s')
        \<longrightarrow> \<not> installed (data (repository s'))
            \<and> installed_version (data (repository s')) = None
            \<and> installed_commit (data (repository s')) = None
            \<and> (\<exists>q. local_target (repository s) = Some q \<and> q \<notin> set (fs s'))
            \<and> RemoveStore (''hacs/'' @ id_repository (data (repository s)) @ ''.hacs'')
                 \<in> set (drop (length (trace s)) (trace s'))
            \<and> last (trace s')
                 = BusFire ''hacs/repository'' ''uninstall'' (full_name (data (repository s))))"
proof -
  have total: "\<exists>res s'. uninstall h x s = Some (res, s')"
    using remove_local_directory_total [of h x s]
    by (auto simp: uninstall_def split: sum.splits bool.splits prod.splits)
  have effects: "(\<forall>q. Rmtree q \<in> set (drop (length (trace s)) (trace s'))
                \<longrightarrow> category (data (repository s)) \<noteq> ''python_script''
                    \<and> local_target (repository s) = Some q \<and> is_safe x q)
          \<and> (\<forall>q. OsRemove q \<in> set (drop (length (trace s)) (trace s'))
                \<longrightarrow> (category (data (repository s)) = ''python_script''
                     \<and> local_target (repository s) = Some q \<and> is_safe x q)
                    \<or> (category (data (repository s)) = ''theme''
                       \<and> q = theme_yaml h (repository s)))"
    if "uninstall h x s = Some (res, s')"
    using uninstall_effects [OF that]
    by (auto simp: allowed_removal_def split: effect.splits)
  have blocked: "res = Inl (HacsException ''Could not uninstall'')
            \<and> repository s' = repository s \<and> fs s' = fs s"
    if u: "uninstall h x s = Some (res, s')"
      and c: "category (data (repository s)) \<noteq> ''theme''"
      and p: "local_target (repository s) = Some p" "p \<in> set (fs s)" "\<not> is_safe x p"
    using u
  proof (cases rule: uninstall_cases)
    case (failed r1)
    from remove_local_directory_result [OF failed(1)] c p failed(3) show ?thesis
      by auto
  next
    case (removed s1)
    from remove_local_directory_result [OF removed(1)] c p show ?thesis
      by auto
  qed
  have returned: "\<not> installed (data (repository s'))
            \<and> installed_version (data (repository s')) = None
            \<and> installed_commit (data (repository s')) = None
            \<and> (\<exists>q. local_target (repository s) = Some q \<and> q \<notin> set (fs s'))
            \<and> RemoveStore (''hacs/'' @ id_repository (data (repository s)) @ ''.hacs'')
                 \<in> set (drop (length (trace s)) (trace s'))
            \<and> last (trace s')
                 = BusFire ''hacs/repository'' ''uninstall'' (full_name (data (repository s)))"
    if u: "uninstall h x s = Some (Inr (), s')"
    using u
  proof (cases rule: uninstall_cases)
    case (failed r1)
    then show ?thesis by (auto split: sum.splits)
  next
    case (removed s1)
    let ?s2 = "set_data (\<lambda>d. d\<lparr>installed := False\<rparr>) s1"
    from remove_local_directory_result [OF removed(1)] obtain t1 q where
      r: "repository s1 = repository s" "trace s1 = trace s @ t1"
        "local_target (repository s) = Some q" "q \<notin> set (fs s1)"
      by auto
    have s2: "fs ?s2 = fs s1" "trace ?s2 = trace s1" "\<not> installed (data (repository ?s2))"
      "full_name (data (repository ?s2)) = full_name (data (repository s))"
      "store_key ?s2 = ''hacs/'' @ id_repository (data (repository s)) @ ''.hacs''"
      by (simp_all add: set_data_def store_key_def r(1))
    from uninstall_finish_result [OF removed(2)] obtain t2 where
      f: "fs s' = fs ?s2" "installed (data (repository s')) = installed (data (repository ?s2))"
        "trace s' = trace ?s2 @ t2" "RemoveStore (store_key ?s2) \<in> set t2"
        "installed_version (data (repository s')) = None"
        "installed_commit (data (repository s')) = None"
        "last (trace s') = BusFire ''hacs/repository'' ''uninstall''
                             (full_name (data (repository ?s2)))"
      by auto
    have tr: "trace s' = trace s @ t1 @ t2"
      using f(3) s2(2) r(2) by simp
    have dr: "drop (length (trace s)) (trace s') = t1 @ t2"
      by (simp add: tr)
    have rs: "RemoveStore (''hacs/'' @ id_repository (data (repository s)) @ ''.hacs'')
        \<in> set (t1 @ t2)"
      using f(4) s2(5) by simp
    have l: "last (trace s')
        = BusFire ''hacs/repository'' ''uninstall'' (full_name (data (repository s)))"
      using f(7) s2(4) by simp
    have i: "\<not> installed (data (repository s'))"
      using f(2) s2(3) by simp
    have g: "q \<notin> set (fs s')"
      using f(1) s2(1) r(4) by simp
    from i f(5) f(6) r(3) g rs l show ?thesis
      unfolding dr by blast
  qed
  from total effects blocked returned show ?thesis by blast
qed

lemmas uninstall_eval =
  uninstall_def remove_local_directory_def remove_target_eq local_target_def theme_yaml_def
  name_of_def remove_path_def rmtree_def os_remove_def uninstall_finish_def
  remove_store_and_fire_def store_key_def emit_def set_data_def set_repository_def
  py_str_opt_def

theorem uninstall_removes_after_check_witness:
  "map_option fst (uninstall hacs_example external_example plugin_state) = Some (Inr ())
   \<and> map_option (fs \<circ> snd) (uninstall hacs_example external_example plugin_state)
       = Some [''/config/www/community/other'']
   \<and> map_option (trace \<circ> snd) (uninstall hacs_example external_example plugin_state)
       = Some [Rmtree ''/config/www/community/widget'', RemoveStore ''hacs/0.hacs'',
               BusFire ''hacs/repository'' ''uninstall'' ''acme/widget'']
   \<and> map_option (installed \<circ> data \<circ> repository \<circ> snd)
         (uninstall hacs_example external_example plugin_state) = Some False
   \<and> map_option (installed_commit \<circ> data \<circ> repository \<circ> snd)
         (uninstall hacs_example external_example plugin_state) = Some None
   \<and> local_target (repository misplaced_plugin_state) = Some ''/config/themes''
   \<and> ''/config/themes'' \<in> set (fs misplaced_plugin_state)
   \<and> \<not> is_safe external_example ''/config/themes''
   \<and> map_option fst (uninstall hacs_example external_example misplaced_plugin_state)
       = Some (Inl (HacsException ''Could not uninstall''))
   \<and> map_option (fs \<circ> snd) (uninstall hacs_example external_example misplaced_plugin_state)
       = Some (fs misplaced_plugin_state)
   \<and> map_option (repository \<circ> snd)
         (uninstall hacs_example external_example misplaced_plugin_state)
       = Some (repository misplaced_plugin_state)"
proof -
  let ?u = "uninstall hacs_example external_example plugin_state"
  let ?v = "uninstall hacs_example external_example misplaced_plugin_state"
  have a: "map_option fst ?u = Some (Inr ())"
    "map_option (fs \<circ> snd) ?u = Some [''/config/www/community/other'']"
    "map_option (trace \<circ> snd) ?u
       = Some [Rmtree ''/config/www/community/widget'', RemoveStore ''hacs/0.hacs'',
               BusFire ''hacs/repository'' ''uninstall'' ''acme/widget'']"
    by (simp_all add: uninstall_eval example_defs)
  have b: "local_target (repository misplaced_plugin_state) = Some ''/config/themes''"
    "''/config/themes'' \<in> set (fs misplaced_plugin_state)"
    "\<not> is_safe external_example ''/config/themes''"
    "category (data (repository misplaced_plugin_state)) \<noteq> ''theme''"
    by (simp_all add: local_target_def example_defs)
  from a(1) obtain s' where u: "?u = Some (Inr (), s')" by auto
  note t = uninstall_removes_after_check
    [where h = hacs_example and x = external_example and s = plugin_state
       and res = "Inr ()" and s' = s' and p = "''''"]
  from t u have c: "\<not> installed (data (repository s'))"
    "installed_commit (data (repository s')) = None"
    by blast+
  from uninstall_removes_after_check
    [where h = hacs_example and x = external_example and s = misplaced_plugin_state]
  obtain r1 s1 where v: "?v = Some (r1, s1)" by blast
  note w = uninstall_removes_after_check
    [where h = hacs_example and x = external_example and s = misplaced_plugin_state
       and res = r1 and s' = s1 and p = "''/config/themes''"]
  from w v b have d: "r1 = Inl (HacsException ''Could not uninstall'')"
    "repository s1 = repository misplaced_plugin_state" "fs s1 = fs misplaced_plugin_state"
    by blast+
  show ?thesis
    using a b(1,2,3) by (simp add: u c v d)
qed

theorem theme_file_removed_unchecked_counterexample:
  "category (data (repository theme_state)) = ''theme''
   \<and> local_target (repository theme_state) = Some ''/config/themes''
   \<and> ''/config/themes'' \<in> set (fs theme_state)
   \<and> \<not> is_safe external_example ''/config/themes''
   \<and> ''/config/themes/midnight.yaml'' \<in> set (fs theme_state)
   \<and> map_option fst (uninstall hacs_example external_example theme_state)
       = Some (Inl (HacsException ''Could not uninstall''))
   \<and> map_option (fs \<circ> snd) (uninstall hacs_example external_example theme_state)
       = Some [''/config/themes'']
   \<and> map_option (trace \<circ> snd) (uninstall hacs_example external_example theme_state)
       = Some [OsRemove ''/config/themes/midnight.yaml'',
               LogError ''%s Path %s is blocked from removal'']"
  by (simp add: uninstall_eval example_defs)

end
